theory Spec2Isabelle
  imports Complex_Main
begin

section \<open>Conventions of the embedding\<close>

text \<open>
  The TypeScript sources are embedded shallowly.

  \<^item> A \<open>number\<close> is a \<open>real\<close>: arithmetic is exact and there is no NaN or infinity.
    Lengths and counts are \<open>nat\<close> and are injected with \<open>real\<close> where the source mixes
    them with scores.
  \<^item> A \<open>string\<close> is a list of 8-bit code units; the UTF-16 strings of the source are
    modelled on the range U+0000..U+00FF.
  \<^item> An optional property (\<open>notes?: string\<close>) is an \<open>option\<close>; \<open>None\<close> is \<open>undefined\<close>.
  \<^item> A \<open>Date\<close> is its number of milliseconds, an \<open>int\<close>; \<open>new Date()\<close> is a parameter
    \<open>now\<close> of the function that calls it.
  \<^item> Messages that the source builds from Chinese template strings are values of a
    datatype with one constructor per template, carrying the interpolated values.
\<close>

section \<open>Strings\<close>

definition code_unit :: "char \<Rightarrow> nat" where
  "code_unit c = of_char c"

text \<open>\<open>String.prototype.toLowerCase\<close> on U+0000..U+00FF: A-Z and the Latin-1 capitals
  U+00C0..U+00DE (without the multiplication sign U+00D7) move up by 32, that is, bit 5
  is set.\<close>

definition toLowerCase_char :: "char \<Rightarrow> char" where
  "toLowerCase_char c =
     (if (65 \<le> code_unit c \<and> code_unit c \<le> 90)
         \<or> (192 \<le> code_unit c \<and> code_unit c \<le> 222 \<and> code_unit c \<noteq> 215)
      then (case c of Char b0 b1 b2 b3 b4 b5 b6 b7 \<Rightarrow> Char b0 b1 b2 b3 b4 True b6 b7)
      else c)"

definition toLowerCase :: "string \<Rightarrow> string" where
  "toLowerCase s = map toLowerCase_char s"

text \<open>The regular-expression class \<open>\s\<close> (and the characters removed by \<open>trim\<close>):
  TAB, LF, VT, FF, CR, space and the no-break space.\<close>

definition is_space :: "char \<Rightarrow> bool" where
  "is_space c = (code_unit c \<in> {9, 10, 11, 12, 13, 32, 160})"

text \<open>The class \<open>\w\<close>: \<open>[A-Za-z0-9_]\<close>.\<close>

definition is_word :: "char \<Rightarrow> bool" where
  "is_word c =
     ((48 \<le> code_unit c \<and> code_unit c \<le> 57) \<or> (65 \<le> code_unit c \<and> code_unit c \<le> 90)
      \<or> code_unit c = 95 \<or> (97 \<le> code_unit c \<and> code_unit c \<le> 122))"

text \<open>The class \<open>[.!?]\<close>.\<close>

definition is_terminator :: "char \<Rightarrow> bool" where
  "is_terminator c = (c = CHR ''.'' \<or> c = CHR ''!'' \<or> c = CHR ''?'')"

definition trim :: "string \<Rightarrow> string" where
  "trim s = rev (dropWhile is_space (rev (dropWhile is_space s)))"

fun startsWith :: "string \<Rightarrow> string \<Rightarrow> bool" where
  "startsWith s [] = True"
| "startsWith [] (p # ps) = False"
| "startsWith (c # cs) (p # ps) = (c = p \<and> startsWith cs ps)"

text \<open>\<open>s.includes(sub)\<close>: \<open>sub\<close> occurs in \<open>s\<close> as a contiguous substring.\<close>

fun includes_str :: "string \<Rightarrow> string \<Rightarrow> bool" where
  "includes_str [] sub = (sub = [])"
| "includes_str (c # cs) sub = (startsWith (c # cs) sub \<or> includes_str cs sub)"

text \<open>\<open>s.split(/[sep]+/)\<close> for a character class \<open>sep\<close>: the pieces between maximal runs
  of separators. As in JavaScript a leading or trailing run yields an empty first or
  last piece, and the empty string yields one empty piece. \<open>cur\<close> is the piece being
  read.\<close>

function split_plus :: "(char \<Rightarrow> bool) \<Rightarrow> string \<Rightarrow> string \<Rightarrow> string list" where
  "split_plus sep cur [] = [cur]"
| "split_plus sep cur (c # cs) =
     (if sep c then cur # split_plus sep [] (dropWhile sep cs)
      else split_plus sep (cur @ [c]) cs)"
  by pat_completeness auto
termination
  by (relation "measure (\<lambda>(sep, cur, s). length s)")
     (auto simp: less_Suc_eq_le length_dropWhile_le)

definition split_class :: "(char \<Rightarrow> bool) \<Rightarrow> string \<Rightarrow> string list" where
  "split_class sep s = split_plus sep [] s"

section \<open>Numbers\<close>

text \<open>\<open>Math.round\<close>: the nearest integer, a half rounding up.\<close>

definition Math_round :: "real \<Rightarrow> real" where
  "Math_round x = of_int \<lfloor>x + 1 / 2\<rfloor>"

section \<open>Data model (src/types/index.ts)\<close>

datatype TaskStatus = PENDING | IN_PROGRESS | COMPLETED | BLOCKED

record TaskDependency =
  taskId :: string

datatype RelatedFileType = TO_MODIFY | REFERENCE | CREATE | DEPENDENCY | OTHER

record RelatedFile =
  rf_path :: string
  rf_type :: RelatedFileType
  rf_description :: "string option"
  rf_lineStart :: "real option"
  rf_lineEnd :: "real option"

datatype TaskComplexityLevel = LEVEL_LOW | LEVEL_MEDIUM | LEVEL_HIGH | LEVEL_VERY_HIGH

datatype SystemRecommendation = SYSTEM_1 | SYSTEM_2 | HYBRID

datatype MCPServerTarget = supabase | graphiti | hybrid

record ComplexityMetrics =
  descriptionLength :: nat
  dependenciesCount :: nat
  notesLength :: nat
  hasNotes :: bool

record TaskComplexityAssessment =
  level :: TaskComplexityLevel
  metrics :: ComplexityMetrics
  recommendations :: "string list"

record CognitiveRoutingAssessment = TaskComplexityAssessment +
  systemRecommendation :: SystemRecommendation
  mcpServerTarget :: MCPServerTarget
  routingJustification :: "string list"
  episodicMemoryRequired :: bool
  temporalContextRequired :: bool
  complexityScore :: nat

text \<open>The string-literal union \<open>'LOW' | 'MEDIUM' | 'HIGH'\<close>, used for the manipulation
  risk, the detection sensitivity and the completion confidence.\<close>

datatype LowMediumHigh = LOW | MEDIUM | HIGH

text \<open>The entries of \<open>suspiciousPatterns\<close> and of \<open>issues\<close>, one constructor per template:
  a configured keyword found; a phrase repeated too often (with its first 50
  characters); a contradictory pair found; and the three issues of the evidence check
  (summary unrelated to the description, verification criteria not met, implementation
  guide not followed).\<close>

datatype Pattern =
    SuspiciousKeyword string
  | RepeatedPhrase string
  | Contradiction string string
  | DescriptionMismatch
  | CriteriaUnmet
  | GuideDeviation

text \<open>The entries of \<open>incentiveAnalysis\<close>: the evidence bonus, the evidence penalty, the
  penalty for a number of suspicious patterns, and the honesty bonus of 2.\<close>

datatype Incentive =
    EvidenceBonus real
  | EvidencePenalty real
  | PatternPenalty nat real
  | HonestyBonus

text \<open>The entries of \<open>truthfulnessIndicators\<close>: evidence consistency reached the
  threshold, no suspicious pattern, the incentives did not lower the score, and the
  lines taken over from \<open>incentiveAnalysis\<close>.\<close>

datatype Indicator =
    EvidenceConsistent
  | NoSuspiciousPattern
  | ScoreRaised
  | IncentiveLine Incentive

record AntiObfuscationResult =
  evidenceConsistency :: real
  manipulationRisk :: LowMediumHigh
  truthfulnessIndicators :: "Indicator list"
  suspiciousPatterns :: "Pattern list"

datatype VerificationMethod = STANDARD | DEBATE_PROTOCOL

record DebateAnalysis =
  da_proverScore :: real
  da_estimatorScore :: real
  da_consensusPoints :: "string list"
  da_conflicts :: "string list"
  da_honestEquilibriumScore :: real

record TaskCompletionMetadata =
  completionTimestamp :: real
  verificationMethod :: VerificationMethod
  finalScore :: real
  originalScore :: real
  debateAnalysis :: "DebateAnalysis option"
  antiObfuscationAnalysis :: "AntiObfuscationResult option"
  completionConfidence :: LowMediumHigh
  cm_recommendations :: "string list"

record Task =
  id_task :: string
  name :: string
  description :: string
  notes_task :: "string option"
  status :: TaskStatus
  dependencies :: "TaskDependency list"
  createdAt :: int
  updatedAt :: int
  completedAt :: "int option"
  summary :: "string option"
  relatedFiles :: "RelatedFile list option"
  analysisResult :: "string option"
  implementationGuide :: "string option"
  verificationCriteria :: "string option"
  completionMetadata :: "TaskCompletionMetadata option"
  cognitiveRouting :: "CognitiveRoutingAssessment option"

text \<open>The truthiness test \<open>if (task.field)\<close> on an optional string: the field is
  present and is not the empty string.\<close>

definition truthy :: "string option \<Rightarrow> bool" where
  "truthy x = (case x of None \<Rightarrow> False | Some s \<Rightarrow> s \<noteq> [])"

section \<open>Anti-obfuscation validation (unnamed/part_006)\<close>

record TruthfulnessWeights =
  consistencyWeight :: real
  evidenceWeight :: real
  implementationWeight :: real

record AntiObfuscationConfig =
  evidenceThreshold :: real
  manipulationDetectionSensitivity :: LowMediumHigh
  maxScoreDifference :: real
  suspiciousPatternKeywords :: "string list"
  truthfulnessWeights :: TruthfulnessWeights

definition DEFAULT_ANTI_OBFUSCATION_CONFIG :: AntiObfuscationConfig where
  "DEFAULT_ANTI_OBFUSCATION_CONFIG =
     \<lparr> evidenceThreshold = 70,
       manipulationDetectionSensitivity = MEDIUM,
       maxScoreDifference = 25,
       suspiciousPatternKeywords =
         [''fake'', ''mock'', ''placeholder'', ''todo'', ''fixme'', ''hack'',
          ''temporary'', ''incomplete'', ''unfinished'', ''broken'',
          ''inconsistent'', ''contradictory'', ''misleading''],
       truthfulnessWeights =
         \<lparr> consistencyWeight = 0.4, evidenceWeight = 0.35, implementationWeight = 0.25 \<rparr> \<rparr>"

record IncentiveResult =
  adjustedScore :: real
  incentiveAnalysis :: "Incentive list"

text \<open>\<open>applyHonestIncentives\<close>. The source updates \<open>adjustedScore\<close> and pushes onto
  \<open>incentiveAnalysis\<close> in three steps; each step is one \<open>let\<close>.\<close>

definition applyHonestIncentives ::
  "real \<Rightarrow> real \<Rightarrow> Pattern list \<Rightarrow> AntiObfuscationConfig \<Rightarrow> IncentiveResult" where
  "applyHonestIncentives baseScore evidenceScore patterns config =
     (let (score1, analysis1) =
            (if evidenceScore \<ge> evidenceThreshold config
             then (let bonus = min 5 ((evidenceScore - evidenceThreshold config) / 6)
                   in (baseScore + bonus, [EvidenceBonus bonus]))
             else (let penalty = min 15 ((evidenceThreshold config - evidenceScore) / 3)
                   in (baseScore - penalty, [EvidencePenalty penalty])));
          (score2, analysis2) =
            (if length patterns > 0
             then (let penalty = min 20 (real (length patterns) * 4)
                   in (score1 - penalty,
                       analysis1 @ [PatternPenalty (length patterns) penalty]))
             else (score1 + 2, analysis1 @ [HonestyBonus]));
          score3 = max 0 (min 100 score2)
      in \<lparr> adjustedScore = Math_round score3, incentiveAnalysis = analysis2 \<rparr>)"

text \<open>\<open>isCommonWord\<close>: membership in the stop-word set.\<close>

definition stopWords :: "string list" where
  "stopWords =
     [''the'', ''and'', ''or'', ''but'', ''in'', ''on'', ''at'', ''to'', ''for'', ''of'', ''with'', ''by'',
      ''this'', ''that'', ''these'', ''those'', ''is'', ''are'', ''was'', ''were'', ''be'', ''been'',
      ''have'', ''has'', ''had'', ''do'', ''does'', ''did'', ''will'', ''would'', ''could'', ''should'',
      ''may'', ''might'', ''can'', ''must'', ''shall'', ''need'', ''use'', ''used'', ''using'',
      ''make'', ''made'', ''get'', ''got'', ''take'', ''took'', ''come'', ''came'', ''go'', ''went'']"

definition isCommonWord :: "string \<Rightarrow> bool" where
  "isCommonWord word = (word \<in> set stopWords)"

text \<open>\<open>[...new Set(words)]\<close>: the first occurrence of every element, in order.\<close>

definition dedupe :: "'a list \<Rightarrow> 'a list" where
  "dedupe xs = rev (remdups (rev xs))"

text \<open>\<open>extractKeywords\<close>: lower-case the text, replace every character outside
  \<open>\w\<close> and \<open>\s\<close> by a space, split at runs of white space, keep the words longer than 2
  that are no stop words, and remove duplicates.\<close>

definition extractKeywords :: "string \<Rightarrow> string list" where
  "extractKeywords text =
     (let cleaned = map (\<lambda>c. if is_word c \<or> is_space c then c else CHR '' '') (toLowerCase text);
          words = filter (\<lambda>word. length word > 2 \<and> \<not> isCommonWord word)
                         (split_class is_space cleaned)
      in dedupe words)"

text \<open>The quotient computed three times in \<open>validateTaskEvidence\<close>:
  \<open>keywords.filter(k => summaryKeywords.includes(k)).length / Math.max(keywords.length, 1)\<close>.\<close>

definition alignment :: "string list \<Rightarrow> string list \<Rightarrow> real" where
  "alignment keywords summaryKeywords =
     real (length (filter (\<lambda>k. k \<in> set summaryKeywords) keywords))
       / real (max (length keywords) 1)"

record EvidenceValidation =
  score :: real
  issues :: "Pattern list"

text \<open>\<open>validateTaskEvidence\<close>. The pair \<open>(issues, consistencyScore)\<close> is threaded through
  the three checks. The \<open>config\<close> parameter is not read by the source.\<close>

definition validateTaskEvidence ::
  "Task \<Rightarrow> string \<Rightarrow> AntiObfuscationConfig \<Rightarrow> EvidenceValidation" where
  "validateTaskEvidence task summary_text config =
     (let descriptionKeywords = extractKeywords (description task);
          summaryKeywords = extractKeywords summary_text;
          descriptionCoverage = alignment descriptionKeywords summaryKeywords;
          (issues1, score1) =
            (if descriptionCoverage < 0.3 then ([DescriptionMismatch], 100 - 20) else ([], 100));
          (issues2, score2) =
            (if truthy (verificationCriteria task)
             then (let criteriaKeywords = extractKeywords (the (verificationCriteria task));
                       criteriaAlignment = alignment criteriaKeywords summaryKeywords
                   in if criteriaAlignment < 0.4
                      then (issues1 @ [CriteriaUnmet], score1 - 15) else (issues1, score1))
             else (issues1, score1));
          (issues3, score3) =
            (if truthy (implementationGuide task)
             then (let guideKeywords = extractKeywords (the (implementationGuide task));
                       implementationAlignment = alignment guideKeywords summaryKeywords
                   in if implementationAlignment < 0.3
                      then (issues2 @ [GuideDeviation], score2 - 10) else (issues2, score2))
             else (issues2, score2))
      in \<lparr> score = max 0 score3, issues = issues3 \<rparr>)"

text \<open>\<open>phraseFreq.set(normalized, (phraseFreq.get(normalized) || 0) + 1)\<close> on a \<open>Map\<close>, which
  iterates in the order of first insertion: an association list.\<close>

fun count_phrase :: "(string \<times> nat) list \<Rightarrow> string \<Rightarrow> (string \<times> nat) list" where
  "count_phrase [] normalized = [(normalized, 1)]"
| "count_phrase ((phrase, n) # rest) normalized =
     (if phrase = normalized then (phrase, n + 1) # rest
      else (phrase, n) # count_phrase rest normalized)"

definition contradictoryPairs :: "(string \<times> string) list" where
  "contradictoryPairs =
     [(''completed'', ''incomplete''),
      (''finished'', ''unfinished''),
      (''working'', ''broken''),
      (''implemented'', ''not implemented''),
      (''successful'', ''failed'')]"

text \<open>\<open>detectInconsistencies\<close>: the three checks push onto \<open>suspiciousPatterns\<close> one after
  the other.\<close>

definition detectInconsistencies :: "string \<Rightarrow> AntiObfuscationConfig \<Rightarrow> Pattern list" where
  "detectInconsistencies text config =
     (let lowercaseText = toLowerCase text;
          keywordHits =
            map SuspiciousKeyword
              (filter (\<lambda>keyword. includes_str lowercaseText (toLowerCase keyword))
                      (suspiciousPatternKeywords config));
          phrases = filter (\<lambda>p. length (trim p) > 0) (split_class is_terminator text);
          phraseFreq = foldl count_phrase [] (map (\<lambda>phrase. toLowerCase (trim phrase)) phrases);
          repeated =
            map (\<lambda>(phrase, count). RepeatedPhrase (take 50 phrase))
              (filter (\<lambda>(phrase, count). count > 3 \<and> length phrase > 10) phraseFreq);
          contradictions =
            map (\<lambda>(positive, negative). Contradiction positive negative)
              (filter (\<lambda>(positive, negative).
                         includes_str lowercaseText positive \<and> includes_str lowercaseText negative)
                      contradictoryPairs)
      in keywordHits @ repeated @ contradictions)"

text \<open>\<open>performAntiObfuscationValidation\<close>.\<close>

definition performAntiObfuscationValidation ::
  "Task \<Rightarrow> string \<Rightarrow> real \<Rightarrow> AntiObfuscationConfig \<Rightarrow> AntiObfuscationResult" where
  "performAntiObfuscationValidation task summary_text baseScore config =
     (let evidenceValidation = validateTaskEvidence task summary_text config;
          patterns = detectInconsistencies summary_text config;
          incentiveResult = applyHonestIncentives baseScore (score evidenceValidation) patterns config;
          risk =
            (if length patterns \<ge> 3 \<or> score evidenceValidation < 50 then HIGH
             else if length patterns \<ge> 1 \<or> score evidenceValidation < evidenceThreshold config
             then MEDIUM
             else LOW);
          indicators =
            (if score evidenceValidation \<ge> evidenceThreshold config then [EvidenceConsistent] else [])
            @ (if length patterns = 0 then [NoSuspiciousPattern] else [])
            @ (if adjustedScore incentiveResult \<ge> baseScore then [ScoreRaised] else [])
      in \<lparr> evidenceConsistency = score evidenceValidation,
           manipulationRisk = risk,
           truthfulnessIndicators = indicators @ map IncentiveLine (incentiveAnalysis incentiveResult),
           suspiciousPatterns = patterns @ issues evidenceValidation \<rparr>)"

text \<open>The adjusted score that the pipeline computes on the way
  (\<open>incentiveResult.adjustedScore\<close> inside \<open>performAntiObfuscationValidation\<close>).\<close>

definition pipelineAdjustedScore :: "Task \<Rightarrow> string \<Rightarrow> real \<Rightarrow> AntiObfuscationConfig \<Rightarrow> real" where
  "pipelineAdjustedScore task summary_text baseScore config =
     adjustedScore
       (applyHonestIncentives baseScore
          (score (validateTaskEvidence task summary_text config))
          (detectInconsistencies summary_text config) config)"

section \<open>Debate protocol configuration (src/config/debateProtocol.ts)\<close>

record Weights =
  prover :: real
  estimator :: real
  synthesis :: real

record Incentives =
  consensusBonus :: real
  conflictPenalty :: real
  scoreDiscrepancyPenalty :: real
  maxScoreDiscrepancy :: real

datatype EvidenceRequirement = MINIMAL | MODERATE | COMPREHENSIVE

record Processing =
  requiredConsensusPoints :: real
  maxAllowedConflicts :: real
  evidenceRequirement :: EvidenceRequirement

text \<open>An intensity profile as the object found at run time. The interface
  \<open>DebateIntensityConfig\<close> declares its three parts required, but \<open>mergeConfig\<close> stores the
  object that an update supplies as it is, and the usage guide (unnamed/part\_001) passes
  profiles without \<open>processing\<close>; so each part may be absent.\<close>

record DebateIntensityConfig =
  weights :: "Weights option"
  incentives :: "Incentives option"
  processing :: "Processing option"

record IntensitySettings =
  light :: DebateIntensityConfig
  moderate :: DebateIntensityConfig
  rigorous :: DebateIntensityConfig

record AntiObfuscationSettings =
  ao_enabled :: bool
  ao_evidenceThreshold :: real
  ao_manipulationSensitivity :: LowMediumHigh
  ao_suspiciousPatternKeywords :: "string list"
  ao_truthfulnessWeights :: TruthfulnessWeights

datatype LogLevel = ERROR | WARN | INFO | DEBUG

record PerformanceSettings =
  maxProcessingTimeMs :: real
  maxRecommendations :: real
  enableAnalytics :: bool
  logLevel :: LogLevel

record ConfidenceThresholds =
  low :: real
  medium :: real
  high :: real

record ScoringSettings =
  completionThreshold :: real
  confidenceThresholds :: ConfidenceThresholds
  scoringPrecision :: real

record DebateProtocolConfig =
  intensitySettings :: IntensitySettings
  antiObfuscation :: AntiObfuscationSettings
  performance :: PerformanceSettings
  scoring :: ScoringSettings

definition DEFAULT_DEBATE_CONFIG :: DebateProtocolConfig where
  "DEFAULT_DEBATE_CONFIG =
     \<lparr> intensitySettings =
         \<lparr> light =
             \<lparr> weights = Some \<lparr> prover = 0.4, estimator = 0.3, synthesis = 0.3 \<rparr>,
               incentives = Some \<lparr> consensusBonus = 1.5, conflictPenalty = 1.0,
                                  scoreDiscrepancyPenalty = 5, maxScoreDiscrepancy = 35 \<rparr>,
               processing = Some \<lparr> requiredConsensusPoints = 1, maxAllowedConflicts = 3,
                                  evidenceRequirement = MINIMAL \<rparr> \<rparr>,
           moderate =
             \<lparr> weights = Some \<lparr> prover = 0.35, estimator = 0.35, synthesis = 0.3 \<rparr>,
               incentives = Some \<lparr> consensusBonus = 2.0, conflictPenalty = 1.5,
                                  scoreDiscrepancyPenalty = 10, maxScoreDiscrepancy = 25 \<rparr>,
               processing = Some \<lparr> requiredConsensusPoints = 2, maxAllowedConflicts = 2,
                                  evidenceRequirement = MODERATE \<rparr> \<rparr>,
           rigorous =
             \<lparr> weights = Some \<lparr> prover = 0.3, estimator = 0.4, synthesis = 0.3 \<rparr>,
               incentives = Some \<lparr> consensusBonus = 3.0, conflictPenalty = 2.0,
                                  scoreDiscrepancyPenalty = 15, maxScoreDiscrepancy = 20 \<rparr>,
               processing = Some \<lparr> requiredConsensusPoints = 3, maxAllowedConflicts = 1,
                                  evidenceRequirement = COMPREHENSIVE \<rparr> \<rparr> \<rparr>,
       antiObfuscation =
         \<lparr> ao_enabled = True,
           ao_evidenceThreshold = 70,
           ao_manipulationSensitivity = MEDIUM,
           ao_suspiciousPatternKeywords =
             [''fake'', ''mock'', ''placeholder'', ''todo'', ''fixme'', ''hack'',
              ''temporary'', ''incomplete'', ''unfinished'', ''broken'',
              ''inconsistent'', ''contradictory'', ''misleading'', ''test'',
              ''dummy'', ''stub'', ''not implemented'', ''coming soon''],
           ao_truthfulnessWeights =
             \<lparr> consistencyWeight = 0.4, evidenceWeight = 0.35, implementationWeight = 0.25 \<rparr> \<rparr>,
       performance =
         \<lparr> maxProcessingTimeMs = 5000, maxRecommendations = 5, enableAnalytics = True,
           logLevel = INFO \<rparr>,
       scoring =
         \<lparr> completionThreshold = 80,
           confidenceThresholds = \<lparr> low = 75, medium = 85, high = 95 \<rparr>,
           scoringPrecision = 2 \<rparr> \<rparr>"

text \<open>An error message built from a template string: its literal pieces and the numbers
  interpolated into it (the decimal rendering of a number is not modelled).\<close>

datatype Fragment = Text string | Num real

type_synonym Message = "Fragment list"


text \<open>Reading \<open>settings.weights.prover\<close> on a profile without \<open>weights\<close> throws.\<close>

datatype Exception = TypeError

text \<open>\<open>Object.entries(config.intensitySettings)\<close>: the three profiles in the order of
  their keys.\<close>

definition intensityEntries :: "IntensitySettings \<Rightarrow> (string \<times> DebateIntensityConfig) list" where
  "intensityEntries settings =
     [(''light'', light settings), (''moderate'', moderate settings),
      (''rigorous'', rigorous settings)]"

text \<open>The \<open>forEach\<close> over the profiles, pushing onto \<open>errors\<close>.\<close>

fun checkWeightSums ::
  "(string \<times> DebateIntensityConfig) list \<Rightarrow> Message list \<Rightarrow> Exception + Message list" where
  "checkWeightSums [] errors = Inr errors"
| "checkWeightSums ((intensity, settings) # rest) errors =
     (case weights settings of
        None \<Rightarrow> Inl TypeError
      | Some w \<Rightarrow>
          (let weightSum = prover w + estimator w + synthesis w
           in checkWeightSums rest
                (if \<bar>weightSum - 1.0\<bar> > 0.01
                 then errors @ [[Text intensity,
                                 Text '' intensity weights do not sum to 1.0 (sum: '',
                                 Num weightSum, Text '')'']]
                 else errors)))"

record ValidationResult =
  isValid :: bool
  errors :: "Message list"

text \<open>\<open>DebateConfigValidator.validate\<close>.\<close>

definition validate :: "DebateProtocolConfig \<Rightarrow> Exception + ValidationResult" where
  "validate config =
     (case checkWeightSums (intensityEntries (intensitySettings config)) [] of
        Inl e \<Rightarrow> Inl e
      | Inr errors1 \<Rightarrow>
          (let errors2 = errors1 @
                 (if completionThreshold (scoring config) < 0
                     \<or> completionThreshold (scoring config) > 100
                  then [[Text ''Completion threshold must be between 0 and 100'']] else []);
               errors3 = errors2 @
                 (if ao_evidenceThreshold (antiObfuscation config) < 0
                     \<or> ao_evidenceThreshold (antiObfuscation config) > 100
                  then [[Text ''Evidence threshold must be between 0 and 100'']] else []);
               thresholds = confidenceThresholds (scoring config);
               errors4 = errors3 @
                 (if low thresholds \<ge> medium thresholds \<or> medium thresholds \<ge> high thresholds
                  then [[Text ''Confidence thresholds must be in ascending order (low < medium < high)'']]
                  else []);
               errors5 = errors4 @
                 (if maxProcessingTimeMs (performance config) \<le> 0
                  then [[Text ''Max processing time must be positive'']] else []);
               errors6 = errors5 @
                 (if maxRecommendations (performance config) \<le> 0
                  then [[Text ''Max recommendations must be positive'']] else [])
           in Inr \<lparr> isValid = (length errors6 = 0), errors = errors6 \<rparr>))"

text \<open>The argument of \<open>updateConfig\<close>. It is typed \<open>Partial<DebateProtocolConfig>\<close>; the
  spreads of \<open>mergeConfig\<close> copy whatever keys a section object has, and the usage guide
  passes sections with some of their keys only, so every key is optional here.\<close>

record IntensityUpdate =
  u_light :: "DebateIntensityConfig option"
  u_moderate :: "DebateIntensityConfig option"
  u_rigorous :: "DebateIntensityConfig option"

record AntiObfuscationUpdate =
  u_enabled :: "bool option"
  u_evidenceThreshold :: "real option"
  u_manipulationSensitivity :: "LowMediumHigh option"
  u_suspiciousPatternKeywords :: "string list option"
  u_truthfulnessWeights :: "TruthfulnessWeights option"

record PerformanceUpdate =
  u_maxProcessingTimeMs :: "real option"
  u_maxRecommendations :: "real option"
  u_enableAnalytics :: "bool option"
  u_logLevel :: "LogLevel option"

record ScoringUpdate =
  u_completionThreshold :: "real option"
  u_confidenceThresholds :: "ConfidenceThresholds option"
  u_scoringPrecision :: "real option"

record ConfigUpdate =
  u_intensitySettings :: "IntensityUpdate option"
  u_antiObfuscation :: "AntiObfuscationUpdate option"
  u_performance :: "PerformanceUpdate option"
  u_scoring :: "ScoringUpdate option"

text \<open>One key of an object spread \<open>{...base, ...updates}\<close>: the value of \<open>updates\<close> when
  the key is there, that of \<open>base\<close> otherwise.\<close>

definition spread :: "'a \<Rightarrow> 'a option \<Rightarrow> 'a" where
  "spread base_value update_value = (case update_value of None \<Rightarrow> base_value | Some v \<Rightarrow> v)"

definition mergeIntensity :: "IntensitySettings \<Rightarrow> IntensityUpdate option \<Rightarrow> IntensitySettings" where
  "mergeIntensity base updates =
     (case updates of
        None \<Rightarrow> base
      | Some u \<Rightarrow> \<lparr> light = spread (light base) (u_light u),
                   moderate = spread (moderate base) (u_moderate u),
                   rigorous = spread (rigorous base) (u_rigorous u) \<rparr>)"

definition mergeAntiObfuscation ::
  "AntiObfuscationSettings \<Rightarrow> AntiObfuscationUpdate option \<Rightarrow> AntiObfuscationSettings" where
  "mergeAntiObfuscation base updates =
     (case updates of
        None \<Rightarrow> base
      | Some u \<Rightarrow>
          \<lparr> ao_enabled = spread (ao_enabled base) (u_enabled u),
            ao_evidenceThreshold = spread (ao_evidenceThreshold base) (u_evidenceThreshold u),
            ao_manipulationSensitivity =
              spread (ao_manipulationSensitivity base) (u_manipulationSensitivity u),
            ao_suspiciousPatternKeywords =
              spread (ao_suspiciousPatternKeywords base) (u_suspiciousPatternKeywords u),
            ao_truthfulnessWeights =
              spread (ao_truthfulnessWeights base) (u_truthfulnessWeights u) \<rparr>)"

definition mergePerformance ::
  "PerformanceSettings \<Rightarrow> PerformanceUpdate option \<Rightarrow> PerformanceSettings" where
  "mergePerformance base updates =
     (case updates of
        None \<Rightarrow> base
      | Some u \<Rightarrow>
          \<lparr> maxProcessingTimeMs = spread (maxProcessingTimeMs base) (u_maxProcessingTimeMs u),
            maxRecommendations = spread (maxRecommendations base) (u_maxRecommendations u),
            enableAnalytics = spread (enableAnalytics base) (u_enableAnalytics u),
            logLevel = spread (logLevel base) (u_logLevel u) \<rparr>)"

definition mergeScoring :: "ScoringSettings \<Rightarrow> ScoringUpdate option \<Rightarrow> ScoringSettings" where
  "mergeScoring base updates =
     (case updates of
        None \<Rightarrow> base
      | Some u \<Rightarrow>
          \<lparr> completionThreshold = spread (completionThreshold base) (u_completionThreshold u),
            confidenceThresholds = spread (confidenceThresholds base) (u_confidenceThresholds u),
            scoringPrecision = spread (scoringPrecision base) (u_scoringPrecision u) \<rparr>)"

text \<open>\<open>DebateConfigLoader.mergeConfig\<close>: the four sections are merged one level deep.\<close>

definition mergeConfig :: "DebateProtocolConfig \<Rightarrow> ConfigUpdate \<Rightarrow> DebateProtocolConfig" where
  "mergeConfig base updates =
     \<lparr> intensitySettings = mergeIntensity (intensitySettings base) (u_intensitySettings updates),
       antiObfuscation = mergeAntiObfuscation (antiObfuscation base) (u_antiObfuscation updates),
       performance = mergePerformance (performance base) (u_performance updates),
       scoring = mergeScoring (scoring base) (u_scoring updates) \<rparr>"

record UpdateResult =
  success :: bool
  update_errors :: "Message list"

text \<open>\<open>DebateConfigLoader.updateConfig\<close> and \<open>getConfig\<close>. The state of the loader is its
  field \<open>config\<close>; \<open>updateConfig\<close> returns what the call returns (or the exception it
  throws) together with the new state.\<close>

definition updateConfig ::
  "ConfigUpdate \<Rightarrow> DebateProtocolConfig \<Rightarrow> (Exception + UpdateResult) \<times> DebateProtocolConfig" where
  "updateConfig updates config =
     (let newConfig = mergeConfig config updates
      in case validate newConfig of
           Inl e \<Rightarrow> (Inl e, config)
         | Inr validation \<Rightarrow>
             if isValid validation
             then (Inr \<lparr> success = True, update_errors = [] \<rparr>, newConfig)
             else (Inr \<lparr> success = False, update_errors = errors validation \<rparr>, config))"

definition getConfig :: "DebateProtocolConfig \<Rightarrow> DebateProtocolConfig" where
  "getConfig config = config"

section \<open>Cognitive router (src/tools/cognitiveRouter.ts)\<close>

text \<open>The constants of \<open>TaskComplexityThresholds\<close> that the router reads.\<close>

definition DESCRIPTION_LENGTH_MEDIUM :: nat where "DESCRIPTION_LENGTH_MEDIUM = 500"
definition DESCRIPTION_LENGTH_HIGH :: nat where "DESCRIPTION_LENGTH_HIGH = 1000"
definition DEPENDENCIES_COUNT_MEDIUM :: nat where "DEPENDENCIES_COUNT_MEDIUM = 2"
definition DEPENDENCIES_COUNT_HIGH :: nat where "DEPENDENCIES_COUNT_HIGH = 5"
definition NOTES_LENGTH_MEDIUM :: nat where "NOTES_LENGTH_MEDIUM = 200"
definition NOTES_LENGTH_HIGH :: nat where "NOTES_LENGTH_HIGH = 500"

definition temporalKeywords :: "string list" where
  "temporalKeywords =
     [''temporal'', ''time'', ''sequence'', ''history'', ''memory'', ''context'', ''knowledge'']"

text \<open>\<open>temporalKeywords.some(...)\<close>: a keyword occurs in the lower-cased description, or
  the notes are truthy and it occurs in the lower-cased notes.\<close>

definition hasTemporalContext :: "Task \<Rightarrow> bool" where
  "hasTemporalContext task =
     list_ex (\<lambda>keyword.
                includes_str (toLowerCase (description task)) keyword
                \<or> (truthy (notes_task task)
                    \<and> includes_str (toLowerCase (the (notes_task task))) keyword))
             temporalKeywords"

text \<open>The four additions to \<open>complexityScore\<close>, in the order of the source.\<close>

definition computeComplexityScore :: "Task \<Rightarrow> nat" where
  "computeComplexityScore task =
     (let descriptionLength = length (description task);
          dependenciesCount = length (dependencies task);
          notesLength = (case notes_task task of None \<Rightarrow> 0 | Some n \<Rightarrow> length n);
          score0 = 0;
          score1 = (if descriptionLength < DESCRIPTION_LENGTH_MEDIUM then score0 + 10
                    else if descriptionLength < DESCRIPTION_LENGTH_HIGH then score0 + 30
                    else score0 + 40);
          score2 = (if dependenciesCount < DEPENDENCIES_COUNT_MEDIUM then score1 + 5
                    else if dependenciesCount < DEPENDENCIES_COUNT_HIGH then score1 + 15
                    else score1 + 30);
          score3 = (if notesLength > NOTES_LENGTH_HIGH then score2 + 20
                    else if notesLength > NOTES_LENGTH_MEDIUM then score2 + 10
                    else score2);
          score4 = (if hasTemporalContext task then score3 + 10 else score3)
      in score4)"

definition levelOfScore :: "nat \<Rightarrow> TaskComplexityLevel" where
  "levelOfScore s =
     (if s \<le> 25 then LEVEL_LOW
      else if s \<le> 50 then LEVEL_MEDIUM
      else if s \<le> 75 then LEVEL_HIGH
      else LEVEL_VERY_HIGH)"

text \<open>\<open>CognitiveRouter.assessTaskComplexity\<close>.\<close>

definition assessTaskComplexity :: "Task \<Rightarrow> CognitiveRoutingAssessment" where
  "assessTaskComplexity task =
     (let descriptionLength = length (description task);
          dependenciesCount = length (dependencies task);
          notesLength = (case notes_task task of None \<Rightarrow> 0 | Some n \<Rightarrow> length n);
          hasNotes' = truthy (notes_task task);
          temporal = hasTemporalContext task;
          complexityScore' = computeComplexityScore task;
          level' = levelOfScore complexityScore';
          (recommendation, target, episodic, justification) =
            (if level' = LEVEL_LOW
             then (SYSTEM_1, supabase, False,
                   [''Low complexity task suitable for fast System 1 processing'',
                    ''High-throughput database operations via Supabase MCP''])
             else if level' = LEVEL_MEDIUM
             then (HYBRID, hybrid, False,
                   [''Medium complexity requires hybrid System 1/System 2 coordination'',
                    ''Initial processing via Supabase, complex analysis via Graphiti''])
             else (SYSTEM_2, graphiti, True,
                   [''High complexity requires deliberative System 2 processing'',
                    ''Episodic memory storage and temporal knowledge graphs via Graphiti MCP'']
                   @ (if temporal
                      then [''Temporal context detected - enhanced memory capabilities required'']
                      else [])))
      in \<lparr> level = level',
           metrics = \<lparr> descriptionLength = descriptionLength,
                       dependenciesCount = dependenciesCount,
                       notesLength = notesLength,
                       hasNotes = hasNotes' \<rparr>,
           recommendations = justification,
           systemRecommendation = recommendation,
           mcpServerTarget = target,
           routingJustification = justification,
           episodicMemoryRequired = episodic,
           temporalContextRequired = temporal,
           complexityScore = complexityScore' \<rparr>)"

section \<open>Task store (src/models/taskModel.ts)\<close>

text \<open>The argument \<open>updates: Partial<Task>\<close> of \<open>updateTask\<close>: every key of \<open>Task\<close> may be
  absent (\<open>None\<close>) or present with a value. A key of an optional property may be present
  with the value \<open>undefined\<close> (\<open>Some None\<close>).\<close>

record TaskUpdate =
  t_id :: "string option"
  t_name :: "string option"
  t_description :: "string option"
  t_notes :: "string option option"
  t_status :: "TaskStatus option"
  t_dependencies :: "TaskDependency list option"
  t_createdAt :: "int option"
  t_updatedAt :: "int option"
  t_completedAt :: "int option option"
  t_summary :: "string option option"
  t_relatedFiles :: "RelatedFile list option option"
  t_analysisResult :: "string option option"
  t_implementationGuide :: "string option option"
  t_verificationCriteria :: "string option option"
  t_completionMetadata :: "TaskCompletionMetadata option option"
  t_cognitiveRouting :: "CognitiveRoutingAssessment option option"

definition key :: "string \<Rightarrow> 'a option \<Rightarrow> string list" where
  "key k v = (case v of None \<Rightarrow> [] | Some x \<Rightarrow> [k])"

text \<open>\<open>Object.keys(updates)\<close>. The keys are listed in the order of the interface; the
  source only asks whether a key outside \<open>allowedFields\<close> is among them.\<close>

definition attemptedFields :: "TaskUpdate \<Rightarrow> string list" where
  "attemptedFields updates =
     key ''id'' (t_id updates) @ key ''name'' (t_name updates)
     @ key ''description'' (t_description updates) @ key ''notes'' (t_notes updates)
     @ key ''status'' (t_status updates) @ key ''dependencies'' (t_dependencies updates)
     @ key ''createdAt'' (t_createdAt updates) @ key ''updatedAt'' (t_updatedAt updates)
     @ key ''completedAt'' (t_completedAt updates) @ key ''summary'' (t_summary updates)
     @ key ''relatedFiles'' (t_relatedFiles updates)
     @ key ''analysisResult'' (t_analysisResult updates)
     @ key ''implementationGuide'' (t_implementationGuide updates)
     @ key ''verificationCriteria'' (t_verificationCriteria updates)
     @ key ''completionMetadata'' (t_completionMetadata updates)
     @ key ''cognitiveRouting'' (t_cognitiveRouting updates)"

definition allowedFields :: "string list" where
  "allowedFields = [''summary'', ''relatedFiles'']"

text \<open>\<open>{ ...tasks[taskIndex], ...updates, updatedAt: new Date() }\<close>.\<close>

definition applyUpdates :: "Task \<Rightarrow> TaskUpdate \<Rightarrow> int \<Rightarrow> Task" where
  "applyUpdates task updates now =
     \<lparr> id_task = spread (id_task task) (t_id updates),
       name = spread (name task) (t_name updates),
       description = spread (description task) (t_description updates),
       notes_task = spread (notes_task task) (t_notes updates),
       status = spread (status task) (t_status updates),
       dependencies = spread (dependencies task) (t_dependencies updates),
       createdAt = spread (createdAt task) (t_createdAt updates),
       updatedAt = now,
       completedAt = spread (completedAt task) (t_completedAt updates),
       summary = spread (summary task) (t_summary updates),
       relatedFiles = spread (relatedFiles task) (t_relatedFiles updates),
       analysisResult = spread (analysisResult task) (t_analysisResult updates),
       implementationGuide = spread (implementationGuide task) (t_implementationGuide updates),
       verificationCriteria = spread (verificationCriteria task) (t_verificationCriteria updates),
       completionMetadata = spread (completionMetadata task) (t_completionMetadata updates),
       cognitiveRouting = spread (cognitiveRouting task) (t_cognitiveRouting updates) \<rparr>"

text \<open>\<open>tasks.findIndex(pred)\<close>; \<open>None\<close> stands for the result \<open>-1\<close>.\<close>

fun findIndex :: "('a \<Rightarrow> bool) \<Rightarrow> 'a list \<Rightarrow> nat option" where
  "findIndex pred [] = None"
| "findIndex pred (x # xs) =
     (if pred x then Some 0 else map_option Suc (findIndex pred xs))"

text \<open>\<open>updateTask\<close>. The store is the task list that \<open>readTasks\<close> returns and that
  \<open>writeTasks\<close> replaces; the function returns its result (\<open>None\<close> is \<open>null\<close>) and the
  store after the call. Where the source returns before \<open>writeTasks\<close>, the store is the
  one that was read.\<close>

definition updateTask :: "int \<Rightarrow> string \<Rightarrow> TaskUpdate \<Rightarrow> Task list \<Rightarrow> Task option \<times> Task list" where
  "updateTask now task_id updates tasks =
     (case findIndex (\<lambda>task. id_task task = task_id) tasks of
        None \<Rightarrow> (None, tasks)
      | Some taskIndex \<Rightarrow>
          if status (tasks ! taskIndex) = COMPLETED
             \<and> length (filter (\<lambda>field. field \<notin> set allowedFields) (attemptedFields updates)) > 0
          then (None, tasks)
          else (let tasks' = tasks[taskIndex := applyUpdates (tasks ! taskIndex) updates now]
                in (Some (tasks' ! taskIndex), tasks')))"

section \<open>Reference definitions, following the words of the specification\<close>

subsection \<open>Score adjustment\<close>

text \<open>The bonus for an evidence score at or above the threshold, capped at 5, or the
  penalty for one below it, capped at 15.\<close>

definition evidenceAdjustment :: "real \<Rightarrow> real \<Rightarrow> real" where
  "evidenceAdjustment evidence threshold =
     (if evidence \<ge> threshold then min 5 ((evidence - threshold) / 6)
      else - min 15 ((threshold - evidence) / 3))"

text \<open>The penalty \<open>min(20, 4 \<times> count)\<close> for a non-empty pattern list, or the flat bonus of 2.\<close>

definition patternAdjustment :: "nat \<Rightarrow> real" where
  "patternAdjustment n = (if n = 0 then 2 else - min 20 (4 * real n))"

definition clampScore :: "real \<Rightarrow> real" where
  "clampScore x = (if x < 0 then 0 else if x > 100 then 100 else x)"


text \<open>The adjusted score of the specification, for a rounding function \<open>rnd\<close>.\<close>

definition spec_adjustedScore :: "(real \<Rightarrow> real) \<Rightarrow> real \<Rightarrow> real \<Rightarrow> nat \<Rightarrow> real \<Rightarrow> real" where
  "spec_adjustedScore rnd baseScore evidence n threshold =
     rnd (clampScore (baseScore + evidenceAdjustment evidence threshold + patternAdjustment n))"

subsection \<open>Evidence validation\<close>

text \<open>The keyword set of a text: its lower-case words (the maximal runs of word
  characters), without those of length at most 2 and without the stop words.\<close>

definition spec_keywords :: "string \<Rightarrow> string set" where
  "spec_keywords text =
     {w \<in> set (split_class (\<lambda>c. \<not> is_word c) (toLowerCase text)).
        2 < length w \<and> w \<notin> set stopWords}"

text \<open>The fraction of the keywords of \<open>text\<close> that are keywords of the summary; 0 for a
  text without keywords.\<close>

definition spec_coverage :: "string \<Rightarrow> string \<Rightarrow> real" where
  "spec_coverage text summary_text =
     (if spec_keywords text = {} then 0
      else real (card (spec_keywords text \<inter> spec_keywords summary_text))
             / real (card (spec_keywords text)))"

text \<open>The evidence check of the specification. \<open>given\<close> decides when an optional field
  takes part in the check.\<close>

definition spec_validateTaskEvidence ::
  "(string option \<Rightarrow> bool) \<Rightarrow> Task \<Rightarrow> string \<Rightarrow> EvidenceValidation" where
  "spec_validateTaskEvidence given task summary_text =
     (let descriptionFails = spec_coverage (description task) summary_text < 0.3;
          criteriaFail = given (verificationCriteria task)
             \<and> spec_coverage (the (verificationCriteria task)) summary_text < 0.4;
          guideFails = given (implementationGuide task)
             \<and> spec_coverage (the (implementationGuide task)) summary_text < 0.3
      in \<lparr> score = 100 - (if descriptionFails then 20 else 0) - (if criteriaFail then 15 else 0)
                     - (if guideFails then 10 else 0),
           issues = (if descriptionFails then [DescriptionMismatch] else [])
                    @ (if criteriaFail then [CriteriaUnmet] else [])
                    @ (if guideFails then [GuideDeviation] else []) \<rparr>)"

definition present :: "string option \<Rightarrow> bool" where
  "present x = (x \<noteq> None)"

subsection \<open>Pattern detection\<close>

text \<open>The number that the phrase map holds for a phrase, 0 when it has no entry.\<close>

definition held :: "(string \<times> nat) list \<Rightarrow> string \<Rightarrow> nat" where
  "held m p = (case map_of m p of None \<Rightarrow> 0 | Some n \<Rightarrow> n)"

text \<open>The number of phrases of a list that occur more than 3 times and are longer
  than 10.\<close>

definition flagged :: "string list \<Rightarrow> nat" where
  "flagged ps = card {p \<in> set ps. 3 < count_list ps p \<and> 10 < length p}"

text \<open>The normalized phrases of a text: its non-blank pieces between sentence
  terminators, trimmed and in lower case.\<close>

definition phrasesOf :: "string \<Rightarrow> string list" where
  "phrasesOf text =
     map (\<lambda>phrase. toLowerCase (trim phrase))
       (filter (\<lambda>p. length (trim p) > 0) (split_class is_terminator text))"

text \<open>The keywords of the texts of a task that the evidence check reads.\<close>

definition taskKeywords :: "Task \<Rightarrow> string set" where
  "taskKeywords task =
     spec_keywords (description task)
     \<union> (case verificationCriteria task of None \<Rightarrow> {} | Some c \<Rightarrow> spec_keywords c)
     \<union> (case implementationGuide task of None \<Rightarrow> {} | Some g \<Rightarrow> spec_keywords g)"

subsection \<open>Configuration updates\<close>





text \<open>The call returned \<open>success: true\<close>.\<close>

definition accepted :: "(Exception + UpdateResult) \<times> DebateProtocolConfig \<Rightarrow> bool" where
  "accepted outcome = (case fst outcome of Inl e \<Rightarrow> False | Inr r \<Rightarrow> success r)"

subsection \<open>Task updates\<close>

text \<open>The update has a key other than \<open>summary\<close> and \<open>relatedFiles\<close>.\<close>

definition touchesProtected :: "TaskUpdate \<Rightarrow> bool" where
  "touchesProtected updates =
     (t_id updates \<noteq> None \<or> t_name updates \<noteq> None \<or> t_description updates \<noteq> None
      \<or> t_notes updates \<noteq> None \<or> t_status updates \<noteq> None \<or> t_dependencies updates \<noteq> None
      \<or> t_createdAt updates \<noteq> None \<or> t_updatedAt updates \<noteq> None
      \<or> t_completedAt updates \<noteq> None \<or> t_analysisResult updates \<noteq> None
      \<or> t_implementationGuide updates \<noteq> None \<or> t_verificationCriteria updates \<noteq> None
      \<or> t_completionMetadata updates \<noteq> None \<or> t_cognitiveRouting updates \<noteq> None)"

section \<open>Example inputs\<close>

text \<open>The task of \<open>createMockTask()\<close> in the test suite (unnamed/part\_007), with time 0
  for its dates.\<close>

definition mockTask :: Task where
  "mockTask =
     \<lparr> id_task = ''test-task-id'',
       name = ''Test Task'',
       description = ''This is a comprehensive test task for validation'',
       notes_task = None,
       status = IN_PROGRESS,
       dependencies = [],
       createdAt = 0,
       updatedAt = 0,
       completedAt = None,
       summary = None,
       relatedFiles = None,
       analysisResult = None,
       implementationGuide = Some ''Follow the implementation steps carefully'',
       verificationCriteria = Some ''Ensure all requirements are met with proper testing'',
       completionMetadata = None,
       cognitiveRouting = None \<rparr>"

text \<open>A task whose three texts all speak of a mock.\<close>

definition mockClientTask :: Task where
  "mockClientTask =
     mockTask \<lparr> description := ''Replace the mock client'',
                implementationGuide := Some ''delete mock'',
                verificationCriteria := Some ''mock removed'' \<rparr>"

definition loginTask :: Task where
  "loginTask =
     mockTask \<lparr> description := ''Fix login'',
                implementationGuide := None,
                verificationCriteria := None \<rparr>"

text \<open>The complex task of \<open>test_cognitive_routing.js\<close>: a description of 343 characters,
  no dependency.\<close>

definition complexTask :: Task where
  "complexTask =
     mockTask \<lparr> id_task := ''test-2'',
       name := ''Complex System Integration Task'',
       description :=
         ''This is a very complex task that involves multiple systems, '' @
         ''requires extensive analysis, temporal knowledge management, '' @
         ''and sophisticated coordination between different architectur'' @
         ''al components. It includes multiple dependencies, requires e'' @
         ''pisodic memory storage, and involves complex reasoning patte'' @
         ''rns that exceed simple database operations.'',
       notes_task :=
         Some ''Additional notes about temporal context and knowledge management requirements'',
       status := PENDING,
       implementationGuide := None,
       verificationCriteria := None \<rparr>"

text \<open>The same task with the word ``architecture'' in its description (the test has
  ``architectural''), again of 343 characters.\<close>

definition scenarioB_task :: Task where
  "scenarioB_task =
     complexTask \<lparr> description :=
         ''This is a very complex task that involves multiple systems, '' @
         ''requires extensive analysis, temporal knowledge management, '' @
         ''and sophisticated coordination between different architectur'' @
         ''e components. It includes multiple dependencies, requires ep'' @
         ''isodic memory storage, and involves complex reasoning patter'' @
         ''ns that exceed simpler database operations.'' \<rparr>"

text \<open>Tasks for the four complexity levels.\<close>

definition fiveDependencies :: "TaskDependency list" where
  "fiveDependencies =
     [\<lparr> taskId = ''dep1'' \<rparr>, \<lparr> taskId = ''dep2'' \<rparr>, \<lparr> taskId = ''dep3'' \<rparr>,
      \<lparr> taskId = ''dep4'' \<rparr>, \<lparr> taskId = ''dep5'' \<rparr>]"

definition mediumTask :: Task where
  "mediumTask = mockTask \<lparr> dependencies := fiveDependencies \<rparr>"

definition highTask :: Task where
  "highTask =
     mockTask \<lparr> description := ''temporal ordering of the change log'',
                dependencies := fiveDependencies,
                notes_task := Some (replicate 201 (CHR ''n'')) \<rparr>"

definition plainHighTask :: Task where
  "plainHighTask =
     mockTask \<lparr> dependencies := fiveDependencies,
                notes_task := Some (replicate 501 (CHR ''n'')) \<rparr>"

definition veryHighTask :: Task where
  "veryHighTask =
     mockTask \<lparr> description := ''temporal '' @ replicate 1000 (CHR ''x''),
                dependencies := fiveDependencies \<rparr>"

text \<open>Configuration updates: the empty one, and one that supplies the weights of the
  light profile and nothing else. \<open>w_552\<close> are the weights of Scenario E of the
  specification (sum 1.2), \<open>w_523\<close> those of the usage guide for rapid prototyping.\<close>

definition emptyUpdate :: ConfigUpdate where
  "emptyUpdate = \<lparr> u_intensitySettings = None, u_antiObfuscation = None,
                   u_performance = None, u_scoring = None \<rparr>"

definition lightWeightsOnly :: "Weights \<Rightarrow> ConfigUpdate" where
  "lightWeightsOnly w =
     emptyUpdate \<lparr> u_intensitySettings :=
        Some \<lparr> u_light = Some \<lparr> weights = Some w, incentives = None, processing = None \<rparr>,
               u_moderate = None, u_rigorous = None \<rparr> \<rparr>"


definition w_523 :: Weights where
  "w_523 = \<lparr> prover = 0.5, estimator = 0.2, synthesis = 0.3 \<rparr>"

text \<open>Task updates and a completed task.\<close>

definition noUpdate :: TaskUpdate where
  "noUpdate =
     \<lparr> t_id = None, t_name = None, t_description = None, t_notes = None, t_status = None,
       t_dependencies = None, t_createdAt = None, t_updatedAt = None, t_completedAt = None,
       t_summary = None, t_relatedFiles = None, t_analysisResult = None,
       t_implementationGuide = None, t_verificationCriteria = None,
       t_completionMetadata = None, t_cognitiveRouting = None \<rparr>"

definition completedTask :: Task where
  "completedTask = mockTask \<lparr> status := COMPLETED, summary := Some ''Validation implemented'' \<rparr>"

section \<open>Verified properties\<close>

subsection \<open>Score adjustment\<close>

lemma clampScore_eq: "clampScore x = max 0 (min 100 x)"
  by (simp add: clampScore_def max_def min_def)




subsection \<open>Manipulation risk\<close>

lemma validateTaskEvidence_score_cases:
  "score (validateTaskEvidence task s config) \<in> {100, 90, 85, 80, 75, 70, 65, 55}"
  by (simp add: validateTaskEvidence_def Let_def)

lemma detect_fake_incomplete_mock:
  "detectInconsistencies ''This is fake and incomplete mock implementation''
      DEFAULT_ANTI_OBFUSCATION_CONFIG
   = [SuspiciousKeyword ''fake'', SuspiciousKeyword ''mock'', SuspiciousKeyword ''incomplete'']"
  by code_simp

text \<open>
  C2. The manipulation risk returned by \<open>performAntiObfuscationValidation\<close> is \<open>HIGH\<close>
  exactly when at least 3 suspicious patterns were detected or the evidence score is
  below 50; otherwise \<open>MEDIUM\<close> exactly when at least 1 pattern was detected or the
  evidence score is below the configured threshold; otherwise \<open>LOW\<close>.
\<close>

theorem manipulationRisk_classification:
  "(manipulationRisk (performAntiObfuscationValidation task s baseScore config) = HIGH) =
     (3 \<le> length (detectInconsistencies s config)
      \<or> score (validateTaskEvidence task s config) < 50)
   \<and> (manipulationRisk (performAntiObfuscationValidation task s baseScore config) = MEDIUM) =
     (\<not> (3 \<le> length (detectInconsistencies s config)
         \<or> score (validateTaskEvidence task s config) < 50)
      \<and> (1 \<le> length (detectInconsistencies s config)
          \<or> score (validateTaskEvidence task s config) < evidenceThreshold config))
   \<and> (manipulationRisk (performAntiObfuscationValidation task s baseScore config) = LOW) =
     (\<not> (3 \<le> length (detectInconsistencies s config)
         \<or> score (validateTaskEvidence task s config) < 50)
      \<and> \<not> (1 \<le> length (detectInconsistencies s config)
          \<or> score (validateTaskEvidence task s config) < evidenceThreshold config))"
  by (simp add: performAntiObfuscationValidation_def Let_def)

theorem manipulationRisk_classification_witness:
  "manipulationRisk
     (performAntiObfuscationValidation mockTask
        ''This is fake and incomplete mock implementation'' 80 DEFAULT_ANTI_OBFUSCATION_CONFIG)
   = HIGH"
  using manipulationRisk_classification [of mockTask
      "''This is fake and incomplete mock implementation''" 80 DEFAULT_ANTI_OBFUSCATION_CONFIG]
  by (simp add: detect_fake_incomplete_mock)

text \<open>
  C8. The evidence score of \<open>validateTaskEvidence\<close> is at least 55, so the condition
  ``evidence score below 50'' never holds, and the manipulation risk is \<open>HIGH\<close> only when
  at least 3 suspicious patterns were detected.
\<close>

theorem evidence_score_at_least_55:
  "55 \<le> score (validateTaskEvidence task s config) \<and>
   \<not> score (validateTaskEvidence task s config) < 50 \<and>
   (manipulationRisk (performAntiObfuscationValidation task s baseScore config) = HIGH
      \<longrightarrow> 3 \<le> length (detectInconsistencies s config))"
  using validateTaskEvidence_score_cases [of task s config]
  by (auto simp add: performAntiObfuscationValidation_def Let_def)

theorem evidence_score_at_least_55_witness:
  "manipulationRisk
     (performAntiObfuscationValidation mockTask
        ''This is fake and incomplete mock implementation'' 80 DEFAULT_ANTI_OBFUSCATION_CONFIG)
   = HIGH
   \<and> 3 \<le> length (detectInconsistencies ''This is fake and incomplete mock implementation''
                    DEFAULT_ANTI_OBFUSCATION_CONFIG)
   \<and> 55 \<le> score (validateTaskEvidence mockTask
                    ''This is fake and incomplete mock implementation''
                    DEFAULT_ANTI_OBFUSCATION_CONFIG)"
proof -
  have high: "manipulationRisk
     (performAntiObfuscationValidation mockTask
        ''This is fake and incomplete mock implementation'' 80 DEFAULT_ANTI_OBFUSCATION_CONFIG)
   = HIGH"
    by (simp add: performAntiObfuscationValidation_def Let_def detect_fake_incomplete_mock)
  with evidence_score_at_least_55 [of mockTask
      "''This is fake and incomplete mock implementation''" DEFAULT_ANTI_OBFUSCATION_CONFIG 80]
  show ?thesis by simp
qed

subsection \<open>Evidence validation\<close>

lemma is_word_not_space: "is_word c \<Longrightarrow> \<not> is_space c"
  by (auto simp: is_word_def is_space_def)

lemma space_is_space: "is_space (CHR '' '')"
  by (simp add: is_space_def code_unit_def)

text \<open>Splitting the cleaned text at white space is splitting the text at the characters
  that are no word characters.\<close>

lemma split_plus_cleaned:
  "split_plus is_space cur (map (\<lambda>c. if is_word c \<or> is_space c then c else CHR '' '') s)
     = split_plus (\<lambda>c. \<not> is_word c) cur s"
proof (induction "\<lambda>c. \<not> is_word c" cur s rule: split_plus.induct)
  case (1 cur)
  show ?case by simp
next
  case (2 cur c cs)
  let ?repl = "\<lambda>c. if is_word c \<or> is_space c then c else CHR '' ''"
  have sp: "is_space (?repl x) = (\<not> is_word x)" for x
    using is_word_not_space [of x] space_is_space by auto
  have dw: "dropWhile is_space (map ?repl cs) = map ?repl (dropWhile (\<lambda>c. \<not> is_word c) cs)"
    by (simp add: dropWhile_map comp_def sp)
  show ?case
  proof (cases "is_word c")
    case True
    with 2 sp [of c] show ?thesis by simp
  next
    case False
    with 2 sp [of c] dw show ?thesis by simp
  qed
qed

lemma set_dedupe: "set (dedupe xs) = set xs"
  by (simp add: dedupe_def)

lemma distinct_dedupe: "distinct (dedupe xs)"
  by (simp add: dedupe_def)

lemma set_extractKeywords: "set (extractKeywords text) = spec_keywords text"
  by (auto simp: extractKeywords_def spec_keywords_def Let_def set_dedupe split_class_def
      split_plus_cleaned isCommonWord_def)

lemma distinct_extractKeywords: "distinct (extractKeywords text)"
  by (simp add: extractKeywords_def Let_def distinct_dedupe)

lemma alignment_card:
  assumes "distinct xs"
  shows "alignment xs ys =
    (if set xs = {} then 0 else real (card (set xs \<inter> set ys)) / real (card (set xs)))"
proof -
  have "distinct (filter (\<lambda>k. k \<in> set ys) xs)"
    using assms by simp
  then have "length (filter (\<lambda>k. k \<in> set ys) xs) = card (set (filter (\<lambda>k. k \<in> set ys) xs))"
    by (rule distinct_card [symmetric])
  also have "set (filter (\<lambda>k. k \<in> set ys) xs) = set xs \<inter> set ys"
    by auto
  finally have num: "length (filter (\<lambda>k. k \<in> set ys) xs) = card (set xs \<inter> set ys)" .
  have len: "length xs = card (set xs)"
    using assms by (simp add: distinct_card)
  show ?thesis
  proof (cases "xs = []")
    case True
    then show ?thesis by (simp add: alignment_def)
  next
    case False
    then have "max (length xs) 1 = length xs"
      by (cases xs) simp_all
    with num len False show ?thesis by (simp add: alignment_def)
  qed
qed

lemma alignment_coverage:
  "alignment (extractKeywords text) (extractKeywords summary_text) = spec_coverage text summary_text"
  by (simp add: alignment_card distinct_extractKeywords set_extractKeywords spec_coverage_def)

lemma validateTaskEvidence_refines:
  "validateTaskEvidence task summary_text config = spec_validateTaskEvidence truthy task summary_text"
  by (simp add: validateTaskEvidence_def spec_validateTaskEvidence_def Let_def alignment_coverage)

lemma spec_score_nonneg: "0 \<le> score (spec_validateTaskEvidence given task summary_text)"
  by (simp add: spec_validateTaskEvidence_def Let_def)

lemma spec_keywords_empty: "spec_keywords '''' = {}"
  by (simp add: spec_keywords_def split_class_def toLowerCase_def)

lemma spec_coverage_empty_summary: "spec_coverage text '''' = 0"
  by (simp add: spec_coverage_def spec_keywords_empty)

text \<open>
  C6 (as amended). \<open>validateTaskEvidence\<close> equals the reference definition: the keyword
  sets are the lower-case words longer than 2 that are no stop words; the score starts
  at 100; 20 are subtracted and an issue is recorded when the fraction of description
  keywords present in the summary is below 0.3; 15 when \<open>verificationCriteria\<close> is
  present and not the empty string and its coverage is below 0.4; 10 when
  \<open>implementationGuide\<close> is present and not the empty string and its coverage is below
  0.3; the score is never below 0.
\<close>

theorem validateTaskEvidence_reference:
  "validateTaskEvidence task summary_text config
     = spec_validateTaskEvidence truthy task summary_text
   \<and> 0 \<le> score (validateTaskEvidence task summary_text config)"
  by (simp add: validateTaskEvidence_refines spec_score_nonneg)

theorem validateTaskEvidence_reference_witness:
  "validateTaskEvidence mockTask '''' DEFAULT_ANTI_OBFUSCATION_CONFIG
     = \<lparr> score = 55, issues = [DescriptionMismatch, CriteriaUnmet, GuideDeviation] \<rparr>"
  using validateTaskEvidence_reference [of mockTask "''''" DEFAULT_ANTI_OBFUSCATION_CONFIG]
  by (simp add: spec_validateTaskEvidence_def spec_coverage_empty_summary truthy_def
      mockTask_def)

text \<open>
  C6 as stated fails on a field that is present but empty: with
  \<open>verificationCriteria = ""\<close> and an empty summary the source skips the criteria check
  and returns 70, whereas the reference that checks every present field gives 55.
\<close>

theorem validateTaskEvidence_present_counterexample:
  "score (validateTaskEvidence (mockTask \<lparr> verificationCriteria := Some '''' \<rparr>) ''''
            DEFAULT_ANTI_OBFUSCATION_CONFIG) = 70
   \<and> score (spec_validateTaskEvidence present
              (mockTask \<lparr> verificationCriteria := Some '''' \<rparr>) '''') = 55"
  by (simp add: validateTaskEvidence_refines spec_validateTaskEvidence_def
      spec_coverage_empty_summary present_def truthy_def mockTask_def)

subsection \<open>Monotonicity of the adjusted score\<close>

lemma evidenceAdjustment_mono:
  assumes "e \<le> e'"
  shows "evidenceAdjustment e thr \<le> evidenceAdjustment e' thr"
proof (cases "thr \<le> e")
  case True
  with assms have "thr \<le> e'" by simp
  moreover have "min 5 ((e - thr) / 6) \<le> min 5 ((e' - thr) / 6)"
    using assms by (intro min.mono) (simp_all add: divide_right_mono)
  ultimately show ?thesis using True by (simp add: evidenceAdjustment_def)
next
  case False
  then have lhs: "evidenceAdjustment e thr = - min 15 ((thr - e) / 3)"
    by (simp add: evidenceAdjustment_def)
  have neg: "0 \<le> min 15 ((thr - e) / 3)" using False by simp
  show ?thesis
  proof (cases "thr \<le> e'")
    case True
    then have rhs: "evidenceAdjustment e' thr = min 5 ((e' - thr) / 6)"
      by (simp add: evidenceAdjustment_def)
    have "0 \<le> min 5 ((e' - thr) / 6)" using True by simp
    with neg show ?thesis unfolding lhs rhs by linarith
  next
    case e': False
    then have rhs: "evidenceAdjustment e' thr = - min 15 ((thr - e') / 3)"
      by (simp add: evidenceAdjustment_def)
    have "min 15 ((thr - e') / 3) \<le> min 15 ((thr - e) / 3)"
      using assms by (intro min.mono) (simp_all add: divide_right_mono)
    then show ?thesis unfolding lhs rhs by linarith
  qed
qed

lemma patternAdjustment_antimono:
  assumes "n \<le> m"
  shows "patternAdjustment m \<le> patternAdjustment n"
proof (cases "n = 0")
  case True
  have "patternAdjustment m \<le> 2"
  proof (cases "m = 0")
    case True
    then show ?thesis by (simp add: patternAdjustment_def)
  next
    case False
    have "0 \<le> min 20 (4 * real m)" by simp
    with False show ?thesis by (simp add: patternAdjustment_def)
  qed
  with True show ?thesis by (simp add: patternAdjustment_def)
next
  case False
  with assms have m: "m \<noteq> 0" by simp
  have "min 20 (4 * real n) \<le> min 20 (4 * real m)"
    using assms by (intro min.mono) simp_all
  with False m show ?thesis by (simp add: patternAdjustment_def)
qed

lemma clampScore_mono: "x \<le> y \<Longrightarrow> clampScore x \<le> clampScore y"
  by (auto simp: clampScore_def)

lemma Math_round_mono: "x \<le> y \<Longrightarrow> Math_round x \<le> Math_round y"
  by (simp add: Math_round_def floor_mono)

lemma spec_adjustedScore_mono:
  assumes "e' \<le> e" and "n \<le> n'"
  shows "spec_adjustedScore Math_round b e' n' thr \<le> spec_adjustedScore Math_round b e n thr"
proof -
  have "b + evidenceAdjustment e' thr + patternAdjustment n'
        \<le> b + evidenceAdjustment e thr + patternAdjustment n"
    using evidenceAdjustment_mono [OF assms(1), of thr] patternAdjustment_antimono [OF assms(2)]
    by linarith
  then show ?thesis
    unfolding spec_adjustedScore_def by (intro Math_round_mono clampScore_mono)
qed

lemma pipelineAdjustedScore_spec:
  "pipelineAdjustedScore task s b config =
     spec_adjustedScore Math_round b (score (validateTaskEvidence task s config))
       (length (detectInconsistencies s config)) (evidenceThreshold config)"
  by (simp add: pipelineAdjustedScore_def applyHonestIncentives_def spec_adjustedScore_def
      evidenceAdjustment_def patternAdjustment_def clampScore_eq Let_def mult.commute)

text \<open>With an evidence score that does not rise and a pattern count that does not
  fall, the adjusted score does not rise.\<close>

lemma pipelineAdjustedScore_mono:
  assumes "score (validateTaskEvidence task s' config) \<le> score (validateTaskEvidence task s config)"
    and "length (detectInconsistencies s config) \<le> length (detectInconsistencies s' config)"
  shows "pipelineAdjustedScore task s' b config \<le> pipelineAdjustedScore task s b config"
  unfolding pipelineAdjustedScore_spec using assms by (rule spec_adjustedScore_mono)

subsubsection \<open>Substring search and appending\<close>

lemma startsWith_append: "startsWith s sub \<Longrightarrow> startsWith (s @ t) sub"
  by (induction s sub rule: startsWith.induct) simp_all

lemma startsWith_refl: "startsWith s s"
  by (induction s) simp_all

lemma includes_str_Nil: "includes_str s []"
  by (cases s) simp_all

lemma includes_str_append_left: "includes_str s sub \<Longrightarrow> includes_str (s @ t) sub"
proof (induction s)
  case Nil
  then show ?case by (simp add: includes_str_Nil)
next
  case (Cons c cs)
  then show ?case using startsWith_append [of "c # cs" sub t] by auto
qed

lemma includes_str_self: "includes_str s s"
  by (cases s) (simp_all add: startsWith_refl)

lemma includes_str_append_right: "includes_str t sub \<Longrightarrow> includes_str (s @ t) sub"
  by (induction s) simp_all

lemma toLowerCase_append: "toLowerCase (s @ t) = toLowerCase s @ toLowerCase t"
  by (simp add: toLowerCase_def)

subsubsection \<open>Splitting and appending\<close>

lemma split_plus_nonempty: "split_plus sep cur s \<noteq> []"
  by (induction sep cur s rule: split_plus.induct) auto

lemma dropWhile_append_nonsep:
  "\<not> sep x \<Longrightarrow> dropWhile sep (cs @ x # xs) = dropWhile sep cs @ x # xs"
  by (induction cs) auto

lemma split_plus_append:
  "\<not> sep x \<Longrightarrow>
   split_plus sep cur (s @ x # xs) =
     butlast (split_plus sep cur s) @ split_plus sep (last (split_plus sep cur s)) (x # xs)"
proof (induction sep cur s rule: split_plus.induct)
  case (1 sep cur)
  then show ?case by simp
next
  case (2 sep cur c cs)
  show ?case
  proof (cases "sep c")
    case True
    with 2 show ?thesis
      by (simp add: dropWhile_append_nonsep split_plus_nonempty)
  next
    case False
    with 2 show ?thesis by simp
  qed
qed

subsubsection \<open>Counting phrases\<close>

lemma count_phrase_keys: "fst ` set (count_phrase m p) = insert p (fst ` set m)"
  by (induction m p rule: count_phrase.induct) auto

lemma count_phrase_distinct: "distinct (map fst m) \<Longrightarrow> distinct (map fst (count_phrase m p))"
proof (induction m p rule: count_phrase.induct)
  case (1 normalized)
  then show ?case by simp
next
  case (2 phrase n rest normalized)
  then show ?case
    using count_phrase_keys [of rest normalized] by (auto simp: image_iff)
qed

lemma held_count_phrase:
  "held (count_phrase m p) q = (if q = p then held m p + 1 else held m q)"
  by (induction m p rule: count_phrase.induct) (auto simp: held_def)

lemma held_foldl:
  "held (foldl count_phrase m ps) q = held m q + count_list ps q"
  by (induction ps arbitrary: m) (auto simp: held_count_phrase)

lemma keys_foldl: "fst ` set (foldl count_phrase m ps) = fst ` set m \<union> set ps"
  by (induction ps arbitrary: m) (auto simp: count_phrase_keys)

lemma distinct_foldl:
  "distinct (map fst m) \<Longrightarrow> distinct (map fst (foldl count_phrase m ps))"
  by (induction ps arbitrary: m) (auto simp: count_phrase_distinct)

lemma repeated_flagged:
  "length (filter (\<lambda>(phrase, count). count > 3 \<and> length phrase > 10)
             (foldl count_phrase [] ps)) = flagged ps"
proof -
  let ?m = "foldl count_phrase [] ps"
  let ?G = "\<lambda>(phrase, count). count > (3::nat) \<and> length (phrase::string) > 10"
  have d: "distinct (map fst ?m)"
    by (rule distinct_foldl) simp
  have val: "c = count_list ps p" if "(p, c) \<in> set ?m" for p c
  proof -
    from d that have "map_of ?m p = Some c" by simp
    then have "held ?m p = c" by (simp add: held_def)
    moreover have "held ?m p = held [] p + count_list ps p" by (rule held_foldl)
    moreover have "held [] p = 0" by (simp add: held_def)
    ultimately show ?thesis by simp
  qed
  have keys: "fst ` set ?m = set ps"
    using keys_foldl [of "[]" ps] by simp
  have "length (filter ?G ?m) = length (map fst (filter ?G ?m))"
    by simp
  also have "\<dots> = card (set (map fst (filter ?G ?m)))"
    using distinct_map_filter [OF d] by (rule distinct_card [symmetric])
  also have "set (map fst (filter ?G ?m)) = {p \<in> set ps. 3 < count_list ps p \<and> 10 < length p}"
  proof (intro set_eqI iffI)
    fix p
    assume "p \<in> set (map fst (filter ?G ?m))"
    then obtain c where pc: "(p, c) \<in> set ?m" "3 < c" "10 < length p" by auto
    from pc(1) have "p \<in> fst ` set ?m" by force
    with keys val [OF pc(1)] pc show "p \<in> {p \<in> set ps. 3 < count_list ps p \<and> 10 < length p}"
      by simp
  next
    fix p
    assume "p \<in> {p \<in> set ps. 3 < count_list ps p \<and> 10 < length p}"
    then have p: "p \<in> set ps" "3 < count_list ps p" "10 < length p" by simp_all
    from p(1) keys obtain c where pc: "(p, c) \<in> set ?m" by force
    with val [OF pc] p have "(p, c) \<in> set (filter ?G ?m)" by simp
    then show "p \<in> set (map fst (filter ?G ?m))" by force
  qed
  finally show ?thesis by (simp add: flagged_def)
qed

lemma flagged_append: "flagged ps \<le> flagged (ps @ qs)"
  unfolding flagged_def by (rule card_mono) auto

lemma flagged_snoc: "flagged (ps @ [q]) \<le> flagged ps + 1"
proof -
  have "{p \<in> set (ps @ [q]). 3 < count_list (ps @ [q]) p \<and> 10 < length p}
          \<subseteq> insert q {p \<in> set ps. 3 < count_list ps p \<and> 10 < length p}"
    by auto
  then have "flagged (ps @ [q]) \<le> card (insert q {p \<in> set ps. 3 < count_list ps p \<and> 10 < length p})"
    unfolding flagged_def by (intro card_mono) auto
  also have "\<dots> \<le> flagged ps + 1"
    unfolding flagged_def by (simp add: card_insert_if)
  finally show ?thesis .
qed

lemma flagged_phrases_append:
  assumes "\<not> is_terminator x"
  shows "flagged (phrasesOf s) \<le> flagged (phrasesOf (s @ x # xs)) + 1"
proof -
  let ?norm = "\<lambda>ps. map (\<lambda>phrase. toLowerCase (trim phrase)) (filter (\<lambda>p. length (trim p) > 0) ps)"
  let ?pieces = "split_plus is_terminator [] s"
  have split_s: "?pieces = butlast ?pieces @ [last ?pieces]"
    using split_plus_nonempty [of is_terminator "[]" s] by simp
  have split_s': "split_plus is_terminator [] (s @ x # xs)
      = butlast ?pieces @ split_plus is_terminator (last ?pieces) (x # xs)"
    using assms by (rule split_plus_append)
  have a: "phrasesOf s = ?norm (butlast ?pieces) @ ?norm [last ?pieces]"
    unfolding phrasesOf_def split_class_def by (subst split_s) simp
  have b: "phrasesOf (s @ x # xs)
      = ?norm (butlast ?pieces) @ ?norm (split_plus is_terminator (last ?pieces) (x # xs))"
    unfolding phrasesOf_def split_class_def split_s' by simp
  have "flagged (phrasesOf s) \<le> flagged (?norm (butlast ?pieces)) + 1"
  proof (cases "length (trim (last ?pieces)) > 0")
    case True
    then show ?thesis unfolding a using flagged_snoc by simp
  next
    case False
    then show ?thesis unfolding a by simp
  qed
  also have "flagged (?norm (butlast ?pieces)) \<le> flagged (phrasesOf (s @ x # xs))"
    unfolding b by (rule flagged_append)
  finally show ?thesis by simp
qed

lemma filter_length_mono:
  "(\<And>x. x \<in> set xs \<Longrightarrow> P x \<Longrightarrow> Q x) \<Longrightarrow> length (filter P xs) \<le> length (filter Q xs)"
  by (induction xs) auto

lemma filter_length_strict:
  assumes "\<And>x. x \<in> set xs \<Longrightarrow> P x \<Longrightarrow> Q x" and "k \<in> set xs" and "Q k" and "\<not> P k"
  shows "length (filter P xs) < length (filter Q xs)"
  using assms
proof (induction xs)
  case Nil
  then show ?case by simp
next
  case (Cons y ys)
  have mono: "length (filter P ys) \<le> length (filter Q ys)"
    using Cons.prems(1) by (intro filter_length_mono) auto
  show ?case
  proof (cases "k = y")
    case True
    with Cons.prems mono show ?thesis by simp
  next
    case False
    with Cons.prems have "k \<in> set ys" by simp
    then have "length (filter P ys) < length (filter Q ys)"
      using Cons.IH Cons.prems by auto
    with Cons.prems(1) [of y] show ?thesis by auto
  qed
qed

lemma detect_length:
  "length (detectInconsistencies text config) =
     length (filter (\<lambda>keyword. includes_str (toLowerCase text) (toLowerCase keyword))
                    (suspiciousPatternKeywords config))
     + flagged (phrasesOf text)
     + length (filter (\<lambda>(positive, negative).
                         includes_str (toLowerCase text) positive
                         \<and> includes_str (toLowerCase text) negative) contradictoryPairs)"
  by (simp add: detectInconsistencies_def Let_def repeated_flagged phrasesOf_def)

lemma detect_length_append_keyword:
  assumes "keyword \<in> set (suspiciousPatternKeywords config)"
    and "\<not> includes_str (toLowerCase s) (toLowerCase keyword)"
  shows "length (detectInconsistencies s config)
           \<le> length (detectInconsistencies (s @ '' '' @ keyword) config)"
proof -
  let ?s' = "s @ '' '' @ keyword"
  have low: "toLowerCase ?s' = toLowerCase s @ toLowerCase ('' '' @ keyword)"
    by (simp add: toLowerCase_append)
  have keep: "includes_str (toLowerCase s) sub \<Longrightarrow> includes_str (toLowerCase ?s') sub" for sub
    unfolding low by (rule includes_str_append_left)
  have "includes_str (toLowerCase ('' '' @ keyword)) (toLowerCase keyword)"
    by (simp add: toLowerCase_def includes_str_self)
  then have new: "includes_str (toLowerCase ?s') (toLowerCase keyword)"
    unfolding low by (rule includes_str_append_right)
  have k: "length (filter (\<lambda>keyword. includes_str (toLowerCase s) (toLowerCase keyword))
                    (suspiciousPatternKeywords config))
         < length (filter (\<lambda>keyword. includes_str (toLowerCase ?s') (toLowerCase keyword))
                    (suspiciousPatternKeywords config))"
    using keep assms new by (intro filter_length_strict [where k = keyword]) auto
  have c: "length (filter (\<lambda>(positive, negative).
                         includes_str (toLowerCase s) positive
                         \<and> includes_str (toLowerCase s) negative) contradictoryPairs)
         \<le> length (filter (\<lambda>(positive, negative).
                         includes_str (toLowerCase ?s') positive
                         \<and> includes_str (toLowerCase ?s') negative) contradictoryPairs)"
    using keep by (intro filter_length_mono) auto
  have "\<not> is_terminator (CHR '' '')"
    by (simp add: is_terminator_def)
  then have f: "flagged (phrasesOf s) \<le> flagged (phrasesOf (s @ CHR '' '' # keyword)) + 1"
    by (rule flagged_phrases_append)
  have "?s' = s @ CHR '' '' # keyword" by simp
  with k c f show ?thesis
    unfolding detect_length by simp
qed

subsubsection \<open>Keywords of a summary with a keyword appended\<close>

lemma split_plus_dropWhile:
  "insert [] (set (split_plus sep [] (dropWhile sep xs))) = insert [] (set (split_plus sep [] xs))"
proof (cases xs)
  case Nil
  then show ?thesis by simp
next
  case (Cons y ys)
  then show ?thesis by (cases "sep y") simp_all
qed

lemma split_plus_append_sep:
  "sep x \<Longrightarrow>
   insert [] (set (split_plus sep cur (s @ x # xs)))
     = insert [] (set (split_plus sep cur s) \<union> set (split_plus sep [] xs))"
proof (induction sep cur s rule: split_plus.induct)
  case (1 sep cur)
  then show ?case using split_plus_dropWhile [of sep xs] by auto
next
  case (2 sep cur c cs)
  show ?case
  proof (cases "sep c")
    case False
    with 2 show ?thesis by simp
  next
    case True
    show ?thesis
    proof (cases "\<forall>y\<in>set cs. sep y")
      case all: True
      have d1: "dropWhile sep (cs @ x # xs) = dropWhile sep xs"
        using all 2(3) by (simp add: dropWhile_append)
      have d2: "dropWhile sep cs = []"
        using all by simp
      have "split_plus sep cur ((c # cs) @ x # xs) = cur # split_plus sep [] (dropWhile sep xs)"
        using d1 by (simp add: True)
      moreover have "split_plus sep cur (c # cs) = [cur, []]"
        by (simp add: True d2)
      ultimately show ?thesis using split_plus_dropWhile [of sep xs] by auto
    next
      case False
      then obtain y where "y \<in> set cs" and "\<not> sep y" by blast
      then have "dropWhile sep (cs @ x # xs) = dropWhile sep cs @ x # xs"
        by (rule dropWhile_append1)
      with 2(1) [OF True 2(3)] True show ?thesis by auto
    qed
  qed
qed

lemma spec_keywords_append:
  "spec_keywords (s @ CHR '' '' # keyword) = spec_keywords s \<union> spec_keywords keyword"
proof -
  have sp: "\<not> is_word (CHR '' '')"
    by (simp add: is_word_def code_unit_def)
  have low: "toLowerCase (s @ CHR '' '' # keyword) = toLowerCase s @ CHR '' '' # toLowerCase keyword"
    by (simp add: toLowerCase_def toLowerCase_char_def code_unit_def)
  have "insert [] (set (split_class (\<lambda>c. \<not> is_word c) (toLowerCase (s @ CHR '' '' # keyword))))
      = insert [] (set (split_class (\<lambda>c. \<not> is_word c) (toLowerCase s))
                   \<union> set (split_class (\<lambda>c. \<not> is_word c) (toLowerCase keyword)))"
    unfolding low split_class_def using sp by (intro split_plus_append_sep) simp
  then have "w \<in> set (split_class (\<lambda>c. \<not> is_word c) (toLowerCase (s @ CHR '' '' # keyword)))
      \<longleftrightarrow> w \<in> set (split_class (\<lambda>c. \<not> is_word c) (toLowerCase s))
                   \<union> set (split_class (\<lambda>c. \<not> is_word c) (toLowerCase keyword))"
    if "2 < length w" for w
    using that by (metis insert_iff length_0_conv not_less_zero)
  then show ?thesis
    unfolding spec_keywords_def by auto
qed

lemma spec_coverage_append:
  assumes "spec_keywords keyword \<inter> spec_keywords text = {}"
  shows "spec_coverage text (s @ CHR '' '' # keyword) = spec_coverage text s"
proof -
  from assms have "spec_keywords text \<inter> (spec_keywords s \<union> spec_keywords keyword)
      = spec_keywords text \<inter> spec_keywords s" by auto
  then show ?thesis
    unfolding spec_coverage_def spec_keywords_append by simp
qed

lemma evidence_append_foreign:
  assumes "spec_keywords keyword \<inter> taskKeywords task = {}"
  shows "validateTaskEvidence task (s @ '' '' @ keyword) config
           = validateTaskEvidence task s config"
proof -
  from assms have d: "spec_keywords keyword \<inter> spec_keywords (description task) = {}"
    by (auto simp: taskKeywords_def)
  have c: "spec_keywords keyword \<inter> spec_keywords (the (verificationCriteria task)) = {}"
    if "truthy (verificationCriteria task)"
    using that assms by (auto simp: taskKeywords_def truthy_def split: option.splits)
  have g: "spec_keywords keyword \<inter> spec_keywords (the (implementationGuide task)) = {}"
    if "truthy (implementationGuide task)"
    using that assms by (auto simp: taskKeywords_def truthy_def split: option.splits)
  show ?thesis
    using c g
    by (auto simp: validateTaskEvidence_refines spec_validateTaskEvidence_def Let_def
        spec_coverage_append [OF d] spec_coverage_append)
qed

text \<open>Appending a configured keyword that the summary does not contain yet does not
  raise the adjusted score, unless it raises the evidence score.\<close>

lemma append_keyword_mono:
  assumes "keyword \<in> set (suspiciousPatternKeywords config)"
    and "\<not> includes_str (toLowerCase s) (toLowerCase keyword)"
    and "score (validateTaskEvidence task (s @ '' '' @ keyword) config)
           \<le> score (validateTaskEvidence task s config)"
  shows "pipelineAdjustedScore task (s @ '' '' @ keyword) b config
           \<le> pipelineAdjustedScore task s b config"
  using assms(3) detect_length_append_keyword [OF assms(1,2)]
  by (rule pipelineAdjustedScore_mono)

text \<open>The evidence score does not rise when no word of the keyword is a keyword of the
  texts of the task.\<close>

lemma append_foreign_keyword_mono:
  assumes "keyword \<in> set (suspiciousPatternKeywords config)"
    and "\<not> includes_str (toLowerCase s) (toLowerCase keyword)"
    and "spec_keywords keyword \<inter> taskKeywords task = {}"
  shows "pipelineAdjustedScore task (s @ '' '' @ keyword) b config
           \<le> pipelineAdjustedScore task s b config"
  using assms(1,2)
proof (rule append_keyword_mono)
  show "score (validateTaskEvidence task (s @ '' '' @ keyword) config)
          \<le> score (validateTaskEvidence task s config)"
    unfolding evidence_append_foreign [OF assms(3)] by simp
qed

lemma evidence_login:
  "score (validateTaskEvidence loginTask ''Fix login'' DEFAULT_ANTI_OBFUSCATION_CONFIG) = 100
   \<and> score (validateTaskEvidence loginTask ''Fix login fake'' DEFAULT_ANTI_OBFUSCATION_CONFIG)
     = 100"
  by code_simp

lemma fake_not_in_login: "\<not> includes_str (toLowerCase ''Fix login'') (toLowerCase ''fake'')"
  by code_simp

text \<open>
  C7 (as amended). For every task, base score, configuration, summary \<open>s\<close> and keyword
  of the configured suspicious-keyword list that does not occur in \<open>s\<close> (without regard
  to case), let \<open>s'\<close> be \<open>s\<close> followed by a space and the keyword. If the evidence score
  for \<open>s'\<close> is not greater than that for \<open>s\<close>, then the adjusted score that the pipeline
  computes for \<open>s'\<close> is not greater than the one for \<open>s\<close>.
\<close>

theorem pipelineAdjustedScore_append_keyword:
  assumes "keyword \<in> set (suspiciousPatternKeywords config)"
    and "\<not> includes_str (toLowerCase s) (toLowerCase keyword)"
    and "score (validateTaskEvidence task (s @ '' '' @ keyword) config)
           \<le> score (validateTaskEvidence task s config)"
  shows "pipelineAdjustedScore task (s @ '' '' @ keyword) b config
           \<le> pipelineAdjustedScore task s b config"
  using assms by (rule append_keyword_mono)

theorem pipelineAdjustedScore_append_keyword_witness:
  "''fake'' \<in> set (suspiciousPatternKeywords DEFAULT_ANTI_OBFUSCATION_CONFIG)
   \<and> \<not> includes_str (toLowerCase ''Fix login'') (toLowerCase ''fake'')
   \<and> score (validateTaskEvidence loginTask (''Fix login'' @ '' '' @ ''fake'')
              DEFAULT_ANTI_OBFUSCATION_CONFIG)
     \<le> score (validateTaskEvidence loginTask ''Fix login'' DEFAULT_ANTI_OBFUSCATION_CONFIG)
   \<and> pipelineAdjustedScore loginTask (''Fix login'' @ '' '' @ ''fake'') 80
        DEFAULT_ANTI_OBFUSCATION_CONFIG
     \<le> pipelineAdjustedScore loginTask ''Fix login'' 80 DEFAULT_ANTI_OBFUSCATION_CONFIG"
proof -
  have h1: "''fake'' \<in> set (suspiciousPatternKeywords DEFAULT_ANTI_OBFUSCATION_CONFIG)"
    by (simp add: DEFAULT_ANTI_OBFUSCATION_CONFIG_def)
  have h3: "score (validateTaskEvidence loginTask (''Fix login'' @ '' '' @ ''fake'')
              DEFAULT_ANTI_OBFUSCATION_CONFIG)
     \<le> score (validateTaskEvidence loginTask ''Fix login'' DEFAULT_ANTI_OBFUSCATION_CONFIG)"
    by (simp add: evidence_login)
  from h1 fake_not_in_login h3
    pipelineAdjustedScore_append_keyword [OF h1 fake_not_in_login h3, of 80]
  show ?thesis by blast
qed

text \<open>
  C7 as stated fails: the keyword ``mock'' is in the configured list and not in the
  summary ``Done.''; appending it raises the evidence score of a task about a mock from
  55 to 100, and the adjusted score for base score 50 from 47 to 51.
\<close>

theorem pipelineAdjustedScore_keyword_counterexample:
  "''mock'' \<in> set (suspiciousPatternKeywords DEFAULT_ANTI_OBFUSCATION_CONFIG)
   \<and> \<not> includes_str (toLowerCase ''Done.'') (toLowerCase ''mock'')
   \<and> pipelineAdjustedScore mockClientTask ''Done.'' 50 DEFAULT_ANTI_OBFUSCATION_CONFIG = 47
   \<and> pipelineAdjustedScore mockClientTask (''Done.'' @ '' '' @ ''mock'') 50
        DEFAULT_ANTI_OBFUSCATION_CONFIG = 51"
  by code_simp

text \<open>Put inside an earlier match instead of after the summary, a keyword can lower the
  number of detected patterns.\<close>

lemma detect_count_can_fall:
  "length (detectInconsistencies (''bro'' @ ''ken working'') DEFAULT_ANTI_OBFUSCATION_CONFIG) = 2
   \<and> length (detectInconsistencies (''bro'' @ ''fake'' @ ''ken working'')
               DEFAULT_ANTI_OBFUSCATION_CONFIG) = 1"
  by code_simp

subsection \<open>Configuration updates\<close>







lemma accepted_merge:
  assumes "accepted (updateConfig updates config)"
  shows "\<exists>v. validate (mergeConfig config updates) = Inr v \<and> isValid v"
    and "updateConfig updates config
           = (Inr \<lparr> success = True, update_errors = [] \<rparr>, mergeConfig config updates)"
  using assms
  by (auto simp: accepted_def updateConfig_def Let_def split: sum.splits if_splits)



lemma update_523:
  "updateConfig (lightWeightsOnly w_523) DEFAULT_DEBATE_CONFIG =
     (Inr \<lparr> success = True, update_errors = [] \<rparr>,
      mergeConfig DEFAULT_DEBATE_CONFIG (lightWeightsOnly w_523))"
  by (simp add: updateConfig_def validate_def mergeConfig_def mergeIntensity_def
      lightWeightsOnly_def emptyUpdate_def intensityEntries_def spread_def
      DEFAULT_DEBATE_CONFIG_def w_523_def Let_def
      mergeAntiObfuscation_def mergePerformance_def mergeScoring_def)



text \<open>
  C10. After an accepted update the entry of every profile that the update supplies is
  the supplied object as it is, with no merge of its parts with the previous profile;
  every profile that the update does not supply, and every section that it does not
  supply, keeps its previous value. So an accepted update that supplies nothing but the
  weights of one profile leaves that profile without \<open>incentives\<close> and \<open>processing\<close>.
\<close>

theorem updateConfig_replaces_profile:
  "accepted (updateConfig updates config) \<longrightarrow>
     (\<forall>iu. u_intensitySettings updates = Some iu \<longrightarrow>
        light (intensitySettings (getConfig (snd (updateConfig updates config))))
          = (case u_light iu of Some p \<Rightarrow> p | None \<Rightarrow> light (intensitySettings config))
        \<and> moderate (intensitySettings (getConfig (snd (updateConfig updates config))))
          = (case u_moderate iu of Some p \<Rightarrow> p | None \<Rightarrow> moderate (intensitySettings config))
        \<and> rigorous (intensitySettings (getConfig (snd (updateConfig updates config))))
          = (case u_rigorous iu of Some p \<Rightarrow> p | None \<Rightarrow> rigorous (intensitySettings config)))
     \<and> (u_intensitySettings updates = None \<longrightarrow>
          intensitySettings (getConfig (snd (updateConfig updates config)))
            = intensitySettings config)
     \<and> (u_antiObfuscation updates = None \<longrightarrow>
          antiObfuscation (getConfig (snd (updateConfig updates config)))
            = antiObfuscation config)
     \<and> (u_performance updates = None \<longrightarrow>
          performance (getConfig (snd (updateConfig updates config))) = performance config)
     \<and> (u_scoring updates = None \<longrightarrow>
          scoring (getConfig (snd (updateConfig updates config))) = scoring config)"
proof
  assume a: "accepted (updateConfig updates config)"
  have new: "getConfig (snd (updateConfig updates config)) = mergeConfig config updates"
    using accepted_merge(2) [OF a] by (simp add: getConfig_def)
  show "(\<forall>iu. u_intensitySettings updates = Some iu \<longrightarrow>
        light (intensitySettings (getConfig (snd (updateConfig updates config))))
          = (case u_light iu of Some p \<Rightarrow> p | None \<Rightarrow> light (intensitySettings config))
        \<and> moderate (intensitySettings (getConfig (snd (updateConfig updates config))))
          = (case u_moderate iu of Some p \<Rightarrow> p | None \<Rightarrow> moderate (intensitySettings config))
        \<and> rigorous (intensitySettings (getConfig (snd (updateConfig updates config))))
          = (case u_rigorous iu of Some p \<Rightarrow> p | None \<Rightarrow> rigorous (intensitySettings config)))
     \<and> (u_intensitySettings updates = None \<longrightarrow>
          intensitySettings (getConfig (snd (updateConfig updates config)))
            = intensitySettings config)
     \<and> (u_antiObfuscation updates = None \<longrightarrow>
          antiObfuscation (getConfig (snd (updateConfig updates config)))
            = antiObfuscation config)
     \<and> (u_performance updates = None \<longrightarrow>
          performance (getConfig (snd (updateConfig updates config))) = performance config)
     \<and> (u_scoring updates = None \<longrightarrow>
          scoring (getConfig (snd (updateConfig updates config))) = scoring config)"
    unfolding new
    by (simp add: mergeConfig_def mergeIntensity_def mergeAntiObfuscation_def
        mergePerformance_def mergeScoring_def spread_def split: option.splits)
qed

theorem updateConfig_replaces_profile_witness:
  "accepted (updateConfig (lightWeightsOnly w_523) DEFAULT_DEBATE_CONFIG)
   \<and> light (intensitySettings
        (getConfig (snd (updateConfig (lightWeightsOnly w_523) DEFAULT_DEBATE_CONFIG))))
       = \<lparr> weights = Some w_523, incentives = None, processing = None \<rparr>
   \<and> incentives (light (intensitySettings DEFAULT_DEBATE_CONFIG)) \<noteq> None
   \<and> processing (light (intensitySettings DEFAULT_DEBATE_CONFIG)) \<noteq> None
   \<and> moderate (intensitySettings
        (getConfig (snd (updateConfig (lightWeightsOnly w_523) DEFAULT_DEBATE_CONFIG))))
       = moderate (intensitySettings DEFAULT_DEBATE_CONFIG)
   \<and> rigorous (intensitySettings
        (getConfig (snd (updateConfig (lightWeightsOnly w_523) DEFAULT_DEBATE_CONFIG))))
       = rigorous (intensitySettings DEFAULT_DEBATE_CONFIG)
   \<and> antiObfuscation (getConfig (snd (updateConfig (lightWeightsOnly w_523) DEFAULT_DEBATE_CONFIG)))
       = antiObfuscation DEFAULT_DEBATE_CONFIG
   \<and> performance (getConfig (snd (updateConfig (lightWeightsOnly w_523) DEFAULT_DEBATE_CONFIG)))
       = performance DEFAULT_DEBATE_CONFIG
   \<and> scoring (getConfig (snd (updateConfig (lightWeightsOnly w_523) DEFAULT_DEBATE_CONFIG)))
       = scoring DEFAULT_DEBATE_CONFIG"
proof -
  have h: "accepted (updateConfig (lightWeightsOnly w_523) DEFAULT_DEBATE_CONFIG)"
    by (simp add: update_523 accepted_def)
  have u: "u_intensitySettings (lightWeightsOnly w_523)
             = Some \<lparr> u_light = Some \<lparr> weights = Some w_523, incentives = None, processing = None \<rparr>,
                      u_moderate = None, u_rigorous = None \<rparr>"
     "u_antiObfuscation (lightWeightsOnly w_523) = None"
     "u_performance (lightWeightsOnly w_523) = None"
     "u_scoring (lightWeightsOnly w_523) = None"
    by (simp_all add: lightWeightsOnly_def emptyUpdate_def)
  have d: "incentives (light (intensitySettings DEFAULT_DEBATE_CONFIG)) \<noteq> None"
    "processing (light (intensitySettings DEFAULT_DEBATE_CONFIG)) \<noteq> None"
    by (simp_all add: DEFAULT_DEBATE_CONFIG_def)
  from updateConfig_replaces_profile [of "lightWeightsOnly w_523" DEFAULT_DEBATE_CONFIG] h u d
  show ?thesis by simp
qed

subsection \<open>Cognitive routing\<close>

text \<open>
  C4. The assessment maps its complexity score to a level by the cut points 25, 50 and
  75, and the level to one target: \<open>LOW\<close> to System 1 on \<open>supabase\<close> without episodic
  memory, \<open>MEDIUM\<close> to the hybrid target, \<open>HIGH\<close> and \<open>VERY_HIGH\<close> to System 2 on
  \<open>graphiti\<close> with episodic memory, and there with a third justification line and
  \<open>temporalContextRequired\<close> when a temporal keyword was detected.
\<close>

theorem assessTaskComplexity_routing:
  "(complexityScore (assessTaskComplexity task) \<le> 25
      \<longrightarrow> level (assessTaskComplexity task) = LEVEL_LOW)
   \<and> (25 < complexityScore (assessTaskComplexity task)
        \<and> complexityScore (assessTaskComplexity task) \<le> 50
      \<longrightarrow> level (assessTaskComplexity task) = LEVEL_MEDIUM)
   \<and> (50 < complexityScore (assessTaskComplexity task)
        \<and> complexityScore (assessTaskComplexity task) \<le> 75
      \<longrightarrow> level (assessTaskComplexity task) = LEVEL_HIGH)
   \<and> (75 < complexityScore (assessTaskComplexity task)
      \<longrightarrow> level (assessTaskComplexity task) = LEVEL_VERY_HIGH)
   \<and> (level (assessTaskComplexity task) = LEVEL_LOW
      \<longrightarrow> systemRecommendation (assessTaskComplexity task) = SYSTEM_1
          \<and> mcpServerTarget (assessTaskComplexity task) = supabase
          \<and> \<not> episodicMemoryRequired (assessTaskComplexity task))
   \<and> (level (assessTaskComplexity task) = LEVEL_MEDIUM
      \<longrightarrow> systemRecommendation (assessTaskComplexity task) = HYBRID
          \<and> mcpServerTarget (assessTaskComplexity task) = hybrid)
   \<and> (level (assessTaskComplexity task) = LEVEL_HIGH
        \<or> level (assessTaskComplexity task) = LEVEL_VERY_HIGH
      \<longrightarrow> systemRecommendation (assessTaskComplexity task) = SYSTEM_2
          \<and> mcpServerTarget (assessTaskComplexity task) = graphiti
          \<and> episodicMemoryRequired (assessTaskComplexity task)
          \<and> (hasTemporalContext task
               \<longrightarrow> temporalContextRequired (assessTaskComplexity task)
                   \<and> routingJustification (assessTaskComplexity task) =
                       [''High complexity requires deliberative System 2 processing'',
                        ''Episodic memory storage and temporal knowledge graphs via Graphiti MCP'',
                        ''Temporal context detected - enhanced memory capabilities required''])
          \<and> (\<not> hasTemporalContext task
               \<longrightarrow> routingJustification (assessTaskComplexity task) =
                       [''High complexity requires deliberative System 2 processing'',
                        ''Episodic memory storage and temporal knowledge graphs via Graphiti MCP'']))"
  by (simp add: assessTaskComplexity_def levelOfScore_def Let_def)

lemma complexityScore_assess:
  "complexityScore (assessTaskComplexity task) = computeComplexityScore task"
  by (simp add: assessTaskComplexity_def Let_def)

lemma temporal_in_description:
  "includes_str (toLowerCase (description task)) ''temporal'' \<Longrightarrow> hasTemporalContext task"
  by (simp add: hasTemporalContext_def temporalKeywords_def)

lemma includes_replicate:
  "p \<noteq> c \<Longrightarrow> \<not> includes_str (replicate n c) (p # ps)"
  by (induction n) simp_all

lemma toLowerCase_replicate_n:
  "toLowerCase (replicate n (CHR ''n'')) = replicate n (CHR ''n'')"
  by (simp add: toLowerCase_def toLowerCase_char_def code_unit_def)

lemma no_temporal_mockTask_description:
  "\<not> list_ex (\<lambda>keyword. includes_str (toLowerCase (description mockTask)) keyword)
        temporalKeywords"
  by code_simp

lemma no_temporal_mockTask: "\<not> hasTemporalContext mockTask"
  using no_temporal_mockTask_description
  by (simp add: hasTemporalContext_def mockTask_def truthy_def)

lemma no_temporal_plainHighTask: "\<not> hasTemporalContext plainHighTask"
  using no_temporal_mockTask_description
  by (simp add: hasTemporalContext_def plainHighTask_def temporalKeywords_def
      toLowerCase_replicate_n includes_replicate)

lemma temporal_highTask: "hasTemporalContext highTask"
  by (rule temporal_in_description) (simp add: highTask_def toLowerCase_def
      toLowerCase_char_def code_unit_def)

lemma temporal_veryHighTask: "hasTemporalContext veryHighTask"
  by (rule temporal_in_description) (simp add: veryHighTask_def toLowerCase_def
      toLowerCase_char_def code_unit_def)

lemma score_examples:
  "computeComplexityScore mockTask = 15"
  "computeComplexityScore mediumTask = 40"
  "computeComplexityScore highTask = 60"
  "computeComplexityScore veryHighTask = 80"
  "computeComplexityScore plainHighTask = 60"
proof -
  have m: "hasTemporalContext mediumTask = hasTemporalContext mockTask"
    by (simp add: hasTemporalContext_def mediumTask_def)
  show "computeComplexityScore mockTask = 15"
    using no_temporal_mockTask
    by (simp add: computeComplexityScore_def Let_def mockTask_def DESCRIPTION_LENGTH_MEDIUM_def
        DEPENDENCIES_COUNT_MEDIUM_def NOTES_LENGTH_HIGH_def NOTES_LENGTH_MEDIUM_def)
  show "computeComplexityScore mediumTask = 40"
    using no_temporal_mockTask m
    by (simp add: computeComplexityScore_def Let_def mockTask_def mediumTask_def
        fiveDependencies_def DESCRIPTION_LENGTH_MEDIUM_def DEPENDENCIES_COUNT_MEDIUM_def
        DEPENDENCIES_COUNT_HIGH_def NOTES_LENGTH_HIGH_def NOTES_LENGTH_MEDIUM_def)
  show "computeComplexityScore highTask = 60"
    using temporal_highTask
    by (simp add: computeComplexityScore_def Let_def mockTask_def highTask_def
        fiveDependencies_def DESCRIPTION_LENGTH_MEDIUM_def DEPENDENCIES_COUNT_MEDIUM_def
        DEPENDENCIES_COUNT_HIGH_def NOTES_LENGTH_HIGH_def NOTES_LENGTH_MEDIUM_def)
  show "computeComplexityScore veryHighTask = 80"
    using temporal_veryHighTask
    by (simp add: computeComplexityScore_def Let_def mockTask_def veryHighTask_def
        fiveDependencies_def DESCRIPTION_LENGTH_MEDIUM_def DESCRIPTION_LENGTH_HIGH_def
        DEPENDENCIES_COUNT_MEDIUM_def DEPENDENCIES_COUNT_HIGH_def NOTES_LENGTH_HIGH_def
        NOTES_LENGTH_MEDIUM_def)
  show "computeComplexityScore plainHighTask = 60"
    using no_temporal_plainHighTask
    by (simp add: computeComplexityScore_def Let_def mockTask_def plainHighTask_def
        fiveDependencies_def DESCRIPTION_LENGTH_MEDIUM_def DEPENDENCIES_COUNT_MEDIUM_def
        DEPENDENCIES_COUNT_HIGH_def NOTES_LENGTH_HIGH_def NOTES_LENGTH_MEDIUM_def)
qed

theorem assessTaskComplexity_routing_witness:
  "complexityScore (assessTaskComplexity mockTask) = 15
   \<and> level (assessTaskComplexity mockTask) = LEVEL_LOW
   \<and> mcpServerTarget (assessTaskComplexity mockTask) = supabase
   \<and> \<not> episodicMemoryRequired (assessTaskComplexity mockTask)
   \<and> complexityScore (assessTaskComplexity mediumTask) = 40
   \<and> level (assessTaskComplexity mediumTask) = LEVEL_MEDIUM
   \<and> mcpServerTarget (assessTaskComplexity mediumTask) = hybrid
   \<and> complexityScore (assessTaskComplexity highTask) = 60
   \<and> level (assessTaskComplexity highTask) = LEVEL_HIGH
   \<and> mcpServerTarget (assessTaskComplexity highTask) = graphiti
   \<and> episodicMemoryRequired (assessTaskComplexity highTask)
   \<and> temporalContextRequired (assessTaskComplexity highTask)
   \<and> length (routingJustification (assessTaskComplexity highTask)) = 3
   \<and> complexityScore (assessTaskComplexity plainHighTask) = 60
   \<and> level (assessTaskComplexity plainHighTask) = LEVEL_HIGH
   \<and> mcpServerTarget (assessTaskComplexity plainHighTask) = graphiti
   \<and> length (routingJustification (assessTaskComplexity plainHighTask)) = 2
   \<and> complexityScore (assessTaskComplexity veryHighTask) = 80
   \<and> level (assessTaskComplexity veryHighTask) = LEVEL_VERY_HIGH
   \<and> mcpServerTarget (assessTaskComplexity veryHighTask) = graphiti"
  using assessTaskComplexity_routing [of mockTask] assessTaskComplexity_routing [of mediumTask]
    assessTaskComplexity_routing [of highTask] assessTaskComplexity_routing [of veryHighTask]
    assessTaskComplexity_routing [of plainHighTask]
    temporal_highTask no_temporal_plainHighTask
  by (simp add: complexityScore_assess score_examples)

text \<open>A description shorter than 500 characters with fewer than 2 dependencies never
  reaches the level \<open>HIGH\<close>: the score is at most 10 + 5 + 20 + 10.\<close>

lemma assess_short_task:
  assumes "length (description task) < 500" and "length (dependencies task) < 2"
  shows "complexityScore (assessTaskComplexity task) \<le> 45
    \<and> level (assessTaskComplexity task) \<in> {LEVEL_LOW, LEVEL_MEDIUM}
    \<and> mcpServerTarget (assessTaskComplexity task) \<noteq> graphiti
    \<and> \<not> episodicMemoryRequired (assessTaskComplexity task)"
  using assms
  by (simp add: assessTaskComplexity_def computeComplexityScore_def levelOfScore_def Let_def
      DESCRIPTION_LENGTH_MEDIUM_def DEPENDENCIES_COUNT_MEDIUM_def)

lemma assess_low_score:
  assumes "length (description task) < 500" and "length (dependencies task) < 2"
    and "notes_task task = Some n" and "length n \<le> 200" and "hasTemporalContext task"
  shows "complexityScore (assessTaskComplexity task) = 25
   \<and> level (assessTaskComplexity task) = LEVEL_LOW
   \<and> mcpServerTarget (assessTaskComplexity task) = supabase
   \<and> episodicMemoryRequired (assessTaskComplexity task) = False
   \<and> temporalContextRequired (assessTaskComplexity task) = True"
  using assms
  by (simp add: assessTaskComplexity_def computeComplexityScore_def levelOfScore_def Let_def
      DESCRIPTION_LENGTH_MEDIUM_def DEPENDENCIES_COUNT_MEDIUM_def NOTES_LENGTH_MEDIUM_def
      NOTES_LENGTH_HIGH_def)

lemma length_scenarioB: "length (description scenarioB_task) = 343"
  by (simp add: scenarioB_task_def)

lemma words_scenarioB:
  "includes_str (description scenarioB_task) ''temporal''
   \<and> includes_str (description scenarioB_task) ''coordination''
   \<and> includes_str (description scenarioB_task) ''architecture''"
  by code_simp

lemma temporal_scenarioB: "hasTemporalContext scenarioB_task"
  by code_simp

lemma rest_scenarioB:
  "dependencies scenarioB_task = [] \<and> notes_task scenarioB_task =
     Some ''Additional notes about temporal context and knowledge management requirements''"
  by (simp add: scenarioB_task_def complexTask_def mockTask_def)

text \<open>
  C5 fails on the source. A task with a description of 343 characters that contains
  ``temporal'', ``coordination'' and ``architecture'', and with no dependency, gets
  the score 25, the level \<open>LOW\<close> and the target \<open>supabase\<close> without episodic memory.
\<close>

theorem assess_scenarioB:
  "length (description scenarioB_task) = 343
   \<and> includes_str (description scenarioB_task) ''temporal''
   \<and> includes_str (description scenarioB_task) ''coordination''
   \<and> includes_str (description scenarioB_task) ''architecture''
   \<and> length (dependencies scenarioB_task) = 0
   \<and> complexityScore (assessTaskComplexity scenarioB_task) = 25
   \<and> level (assessTaskComplexity scenarioB_task) = LEVEL_LOW
   \<and> mcpServerTarget (assessTaskComplexity scenarioB_task) = supabase
   \<and> episodicMemoryRequired (assessTaskComplexity scenarioB_task) = False
   \<and> temporalContextRequired (assessTaskComplexity scenarioB_task) = True"
  using assess_low_score [of scenarioB_task
      "''Additional notes about temporal context and knowledge management requirements''"]
    length_scenarioB words_scenarioB temporal_scenarioB rest_scenarioB
  by simp

text \<open>The task of the test script itself is routed in the same way.\<close>

lemma assess_complexTask:
  "length (description complexTask) = 343
   \<and> complexityScore (assessTaskComplexity complexTask) = 25
   \<and> level (assessTaskComplexity complexTask) = LEVEL_LOW
   \<and> mcpServerTarget (assessTaskComplexity complexTask) = supabase"
proof -
  have t: "hasTemporalContext complexTask" by code_simp
  have l: "length (description complexTask) = 343" by (simp add: complexTask_def)
  have r: "dependencies complexTask = [] \<and> notes_task complexTask =
     Some ''Additional notes about temporal context and knowledge management requirements''"
    by (simp add: complexTask_def mockTask_def)
  from assess_low_score [of complexTask
      "''Additional notes about temporal context and knowledge management requirements''"] t l r
  show ?thesis by simp
qed

subsection \<open>Updates of a completed task\<close>

lemma filter_key:
  "filter P (key k v) = (if v \<noteq> None \<and> P k then [k] else [])"
  by (cases v) (simp_all add: key_def)

lemma disallowed_iff:
  "(filter (\<lambda>field. field \<notin> set allowedFields) (attemptedFields updates) \<noteq> [])
     = touchesProtected updates"
  by (simp add: attemptedFields_def allowedFields_def filter_key touchesProtected_def)

text \<open>In a store with unique ids, looking a stored task up by its id finds it.\<close>

lemma findIndex_distinct:
  "distinct (map f xs) \<Longrightarrow> i < length xs \<Longrightarrow> findIndex (\<lambda>x. f x = f (xs ! i)) xs = Some i"
proof (induction xs arbitrary: i)
  case Nil
  then show ?case by simp
next
  case (Cons x xs)
  show ?case
  proof (cases i)
    case 0
    then show ?thesis by simp
  next
    case (Suc j)
    with Cons.prems have j: "j < length xs" and d: "distinct (map f xs)"
      and x: "f x \<notin> f ` set xs" by simp_all
    from j have "xs ! j \<in> set xs" by simp
    with x have "f x \<noteq> f (xs ! j)" by blast
    with Cons.IH [OF d j] Suc show ?thesis by simp
  qed
qed

lemma applyUpdates_allowed:
  "\<not> touchesProtected updates \<Longrightarrow>
   applyUpdates task updates now =
     task \<lparr> summary := spread (summary task) (t_summary updates),
            relatedFiles := spread (relatedFiles task) (t_relatedFiles updates),
            updatedAt := now \<rparr>"
  by (simp add: touchesProtected_def applyUpdates_def spread_def)

text \<open>
  C9. Let the ids of the stored tasks be unique and let a stored task be completed. An
  update for its id with a key other than \<open>summary\<close> and \<open>relatedFiles\<close> returns \<open>null\<close>
  and leaves the stored list as it is. An update with no such key is applied: the task
  takes the \<open>summary\<close> and the \<open>relatedFiles\<close> that the update supplies and the time of
  the call as \<open>updatedAt\<close>, it is stored in its place, and it is returned.
\<close>

theorem updateTask_completed:
  assumes "distinct (map id_task tasks)" and "i < length tasks"
    and "status (tasks ! i) = COMPLETED"
  shows "(touchesProtected updates \<longrightarrow>
           updateTask now (id_task (tasks ! i)) updates tasks = (None, tasks))
    \<and> (\<not> touchesProtected updates \<longrightarrow>
         updateTask now (id_task (tasks ! i)) updates tasks =
           (Some ((tasks ! i) \<lparr> summary := spread (summary (tasks ! i)) (t_summary updates),
                     relatedFiles := spread (relatedFiles (tasks ! i)) (t_relatedFiles updates),
                     updatedAt := now \<rparr>),
            tasks [i := (tasks ! i) \<lparr> summary := spread (summary (tasks ! i)) (t_summary updates),
                     relatedFiles := spread (relatedFiles (tasks ! i)) (t_relatedFiles updates),
                     updatedAt := now \<rparr>]))"
  using assms findIndex_distinct [OF assms(1,2)]
  by (simp add: updateTask_def disallowed_iff applyUpdates_allowed Let_def)

theorem updateTask_completed_witness:
  "updateTask 5 ''test-task-id'' (noUpdate \<lparr> t_name := Some ''Renamed'' \<rparr>)
        [complexTask, completedTask]
     = (None, [complexTask, completedTask])
   \<and> updateTask 5 ''test-task-id'' (noUpdate \<lparr> t_summary := Some (Some ''Validation done'') \<rparr>)
        [complexTask, completedTask]
     = (Some (completedTask \<lparr> summary := Some ''Validation done'', updatedAt := 5 \<rparr>),
        [complexTask, completedTask \<lparr> summary := Some ''Validation done'', updatedAt := 5 \<rparr>])"
proof -
  have d: "distinct (map id_task [complexTask, completedTask])"
    by (simp add: completedTask_def complexTask_def mockTask_def)
  have i: "(1::nat) < length [complexTask, completedTask]"
    by simp
  have c: "status ([complexTask, completedTask] ! 1) = COMPLETED"
    by (simp add: completedTask_def)
  have n: "id_task ([complexTask, completedTask] ! 1) = ''test-task-id''"
    by (simp add: completedTask_def mockTask_def)
  have p: "touchesProtected (noUpdate \<lparr> t_name := Some ''Renamed'' \<rparr>)"
    "\<not> touchesProtected (noUpdate \<lparr> t_summary := Some (Some ''Validation done'') \<rparr>)"
    by (simp_all add: touchesProtected_def noUpdate_def)
  from updateTask_completed [OF d i c, of "noUpdate \<lparr> t_name := Some ''Renamed'' \<rparr>" 5] p(1) n
  have r1: "updateTask 5 ''test-task-id'' (noUpdate \<lparr> t_name := Some ''Renamed'' \<rparr>)
        [complexTask, completedTask]
     = (None, [complexTask, completedTask])" by simp
  from updateTask_completed [OF d i c,
      of "noUpdate \<lparr> t_summary := Some (Some ''Validation done'') \<rparr>" 5] p(2) n
  have r2: "updateTask 5 ''test-task-id'' (noUpdate \<lparr> t_summary := Some (Some ''Validation done'') \<rparr>)
        [complexTask, completedTask]
     = (Some (completedTask \<lparr> summary := Some ''Validation done'', updatedAt := 5 \<rparr>),
        [complexTask, completedTask \<lparr> summary := Some ''Validation done'', updatedAt := 5 \<rparr>])"
    by (simp add: spread_def noUpdate_def completedTask_def)
  from r1 r2 show ?thesis by simp
qed

end
